theory Spec2Isabelle
  imports Main
begin

section \<open>Python values, strings and dictionaries\<close>

text \<open>
  A Python \<^verbatim>\<open>str\<close> is a sequence of Unicode code points, so \<open>len\<close> is the length of
  the list and slicing and \<open>in\<close> work on code points. ASCII literals of the source are
  written \<open>ustr ''...''\<close>; a character outside ASCII is written as its code point.
\<close>

type_synonym pystr = "nat list"

definition ustr :: "string \<Rightarrow> pystr" where
  "ustr s = map of_char s"

definition nl :: pystr where
  "nl = [10]"

text \<open>\<open>sub in s\<close> on strings, and \<open>s.startswith(p)\<close>.\<close>

fun startswith :: "pystr \<Rightarrow> pystr \<Rightarrow> bool" where
  "startswith s [] = True"
| "startswith [] (p # ps) = False"
| "startswith (c # cs) (p # ps) = (c = p \<and> startswith cs ps)"

fun contains :: "pystr \<Rightarrow> pystr \<Rightarrow> bool" where
  "contains [] sub = (sub = [])"
| "contains (c # cs) sub = (startswith (c # cs) sub \<or> contains cs sub)"

text \<open>
  The values a leave dictionary holds: \<open>None\<close>, strings, integers, and any other object
  (an \<open>ObjectId\<close>, a \<open>datetime\<close>, a float), of which the program only ever takes the
  \<open>str()\<close>; such an object is represented by the name of its class and that text.
\<close>

datatype pyval = PNone | PStr pystr | PInt int | PObj pystr pystr

fun nat_digits :: "nat \<Rightarrow> pystr" where
  "nat_digits n = (if n < 10 then [48 + n] else nat_digits (n div 10) @ [48 + n mod 10])"

declare nat_digits.simps [simp del]

fun py_str :: "pyval \<Rightarrow> pystr" where
  "py_str PNone = ustr ''None''"
| "py_str (PStr s) = s"
| "py_str (PInt i) = (if i < 0 then ustr ''-'' @ nat_digits (nat (- i)) else nat_digits (nat i))"
| "py_str (PObj c s) = s"

type_synonym leave_dict = "pystr \<rightharpoonup> pyval"

text \<open>\<open>d.get(k)\<close> and \<open>d.get(k, default)\<close>.\<close>

definition dict_get :: "leave_dict \<Rightarrow> pystr \<Rightarrow> pyval" where
  "dict_get d k = (case d k of None \<Rightarrow> PNone | Some v \<Rightarrow> v)"

definition dict_get_default :: "leave_dict \<Rightarrow> pystr \<Rightarrow> pyval \<Rightarrow> pyval" where
  "dict_get_default d k dflt = (case d k of None \<Rightarrow> dflt | Some v \<Rightarrow> v)"

section \<open>The inline fallback content\<close>

text \<open>
  The two links of the fallback body and of the plain-text body, as the f-strings build
  them: \<open>{backend_url}/api/leave/{leave_dict.get('_id')}/approve?token={leave_dict.get('approval_token')}\<close>
  and its \<open>reject\<close> counterpart.
\<close>

definition approve_url :: "leave_dict \<Rightarrow> pystr \<Rightarrow> pystr" where
  "approve_url leave_dict backend_url =
     backend_url @ ustr ''/api/leave/'' @ py_str (dict_get leave_dict (ustr ''_id''))
       @ ustr ''/approve?token='' @ py_str (dict_get leave_dict (ustr ''approval_token''))"

definition reject_url :: "leave_dict \<Rightarrow> pystr \<Rightarrow> pystr" where
  "reject_url leave_dict backend_url =
     backend_url @ ustr ''/api/leave/'' @ py_str (dict_get leave_dict (ustr ''_id''))
       @ ustr ''/reject?token='' @ py_str (dict_get leave_dict (ustr ''rejection_token''))"

text \<open>The f-string of \<open>get_fallback_email_content\<close>, one list element per piece.\<close>

definition fallback_html_pieces :: "leave_dict \<Rightarrow> pystr \<Rightarrow> pystr list" where
  \<open>fallback_html_pieces leave_dict backend_url = [
     nl,
     ustr ''    <!DOCTYPE html>'' @ nl,
     ustr ''    <html>'' @ nl,
     ustr ''    <head>'' @ nl,
     ustr ''        <meta charset="utf-8">'' @ nl,
     ustr ''        <title>Leave Request Approval</title>'' @ nl,
     ustr ''    </head>'' @ nl,
     ustr ''    <body style="font-family: Arial, sans-serif; line-height: 1.6; color: #333; max-width: 600px; margin: 0 auto; padding: 20px;">'' @ nl,
     ustr ''        <div style="background: linear-gradient(135deg, #667eea 0%, #764ba2 100%); color: white; padding: 20px; border-radius: 10px 10px 0 0; text-align: center;">'' @ nl,
     ustr ''            <h1 style="margin: 0; font-size: 24px;">Leave Request Approval Required</h1>'' @ nl,
     ustr ''        </div>'' @ nl,
     ustr ''        <div style="background: #f9f9f9; padding: 30px; border-radius: 0 0 10px 10px; border: 1px solid #ddd;">'' @ nl,
     ustr ''            <h2 style="color: #333; margin-top: 0;">Leave Request Details</h2>'' @ nl,
     ustr ''            <table style="width: 100%; border-collapse: collapse; margin: 20px 0;">'' @ nl,
     ustr ''                <tr style="background: #f0f0f0;">'' @ nl,
     ustr ''                    <td style="padding: 10px; border: 1px solid #ddd; font-weight: bold;">Employee:</td>'' @ nl,
     ustr ''                    <td style="padding: 10px; border: 1px solid #ddd;">'',
     py_str (dict_get_default leave_dict (ustr ''employee_name'') (PStr (ustr ''N/A''))),
     ustr ''</td>'' @ nl,
     ustr ''                </tr>'' @ nl,
     ustr ''                <tr>'' @ nl,
     ustr ''                    <td style="padding: 10px; border: 1px solid #ddd; font-weight: bold;">Department:</td>'' @ nl,
     ustr ''                    <td style="padding: 10px; border: 1px solid #ddd;">'',
     py_str (dict_get_default leave_dict (ustr ''employee_department'') (PStr (ustr ''N/A''))),
     ustr ''</td>'' @ nl,
     ustr ''                </tr>'' @ nl,
     ustr ''                <tr style="background: #f0f0f0;">'' @ nl,
     ustr ''                    <td style="padding: 10px; border: 1px solid #ddd; font-weight: bold;">Leave Type:</td>'' @ nl,
     ustr ''                    <td style="padding: 10px; border: 1px solid #ddd;">'',
     py_str (dict_get_default leave_dict (ustr ''leave_type'') (PStr (ustr ''N/A''))),
     ustr ''</td>'' @ nl,
     ustr ''                </tr>'' @ nl,
     ustr ''                <tr>'' @ nl,
     ustr ''                    <td style="padding: 10px; border: 1px solid #ddd; font-weight: bold;">Start Date:</td>'' @ nl,
     ustr ''                    <td style="padding: 10px; border: 1px solid #ddd;">'',
     py_str (dict_get_default leave_dict (ustr ''start_date'') (PStr (ustr ''N/A''))),
     ustr ''</td>'' @ nl,
     ustr ''                </tr>'' @ nl,
     ustr ''                <tr style="background: #f0f0f0;">'' @ nl,
     ustr ''                    <td style="padding: 10px; border: 1px solid #ddd; font-weight: bold;">End Date:</td>'' @ nl,
     ustr ''                    <td style="padding: 10px; border: 1px solid #ddd;">'',
     py_str (dict_get_default leave_dict (ustr ''end_date'') (PStr (ustr ''N/A''))),
     ustr ''</td>'' @ nl,
     ustr ''                </tr>'' @ nl,
     ustr ''                <tr>'' @ nl,
     ustr ''                    <td style="padding: 10px; border: 1px solid #ddd; font-weight: bold;">Days:</td>'' @ nl,
     ustr ''                    <td style="padding: 10px; border: 1px solid #ddd;">'',
     py_str (dict_get_default leave_dict (ustr ''days'') (PStr (ustr ''N/A''))),
     ustr ''</td>'' @ nl,
     ustr ''                </tr>'' @ nl,
     ustr ''                <tr style="background: #f0f0f0;">'' @ nl,
     ustr ''                    <td style="padding: 10px; border: 1px solid #ddd; font-weight: bold;">Reason:</td>'' @ nl,
     ustr ''                    <td style="padding: 10px; border: 1px solid #ddd;">'',
     py_str (dict_get_default leave_dict (ustr ''reason'') (PStr (ustr ''N/A''))),
     ustr ''</td>'' @ nl,
     ustr ''                </tr>'' @ nl,
     ustr ''            </table>'' @ nl,
     ustr ''            '' @ nl,
     ustr ''            <div style="text-align: center; margin: 30px 0;">'' @ nl,
     ustr ''                <a href="'',
     approve_url leave_dict backend_url,
     ustr ''" '' @ nl,
     ustr ''                   style="background: #28a745; color: white; padding: 12px 30px; text-decoration: none; border-radius: 5px; margin: 0 10px; display: inline-block; font-weight: bold;">'' @ nl,
     ustr ''                   '' @ [9989] @ ustr '' APPROVE'' @ nl,
     ustr ''                </a>'' @ nl,
     ustr ''                <a href="'',
     reject_url leave_dict backend_url,
     ustr ''" '' @ nl,
     ustr ''                   style="background: #dc3545; color: white; padding: 12px 30px; text-decoration: none; border-radius: 5px; margin: 0 10px; display: inline-block; font-weight: bold;">'' @ nl,
     ustr ''                   '' @ [10060] @ ustr '' REJECT'' @ nl,
     ustr ''                </a>'' @ nl,
     ustr ''            </div>'' @ nl,
     ustr ''            '' @ nl,
     ustr ''            <p style="font-size: 14px; color: #666; margin-top: 30px;">'' @ nl,
     ustr ''                This is an automated notification. Please click one of the buttons above to approve or reject this leave request.'' @ nl,
     ustr ''            </p>'' @ nl,
     ustr ''        </div>'' @ nl,
     ustr ''    </body>'' @ nl,
     ustr ''    </html>'' @ nl,
     ustr ''    '']\<close>

definition get_fallback_email_content :: "leave_dict \<Rightarrow> pystr \<Rightarrow> pystr \<times> pystr" where
  "get_fallback_email_content leave_dict backend_url =
     (let html_content = concat (fallback_html_pieces leave_dict backend_url);
          amp_content = html_content
      in (amp_content, html_content))"

section \<open>More string operations of the Python library\<close>

text \<open>
  \<open>str.strip()\<close> removes the characters for which \<open>str.isspace\<close> holds from both ends.
  \<open>lower\<close> is \<open>str.lower()\<close> on the ASCII letters, which is all that header names and
  content types hold.
\<close>

definition is_space :: "nat \<Rightarrow> bool" where
  "is_space c = ((9 \<le> c \<and> c \<le> 13) \<or> (28 \<le> c \<and> c \<le> 32) \<or> c = 133 \<or> c = 160
     \<or> c = 5760 \<or> (8192 \<le> c \<and> c \<le> 8202) \<or> c = 8232 \<or> c = 8233 \<or> c = 8239
     \<or> c = 8287 \<or> c = 12288)"

definition py_strip :: "pystr \<Rightarrow> pystr" where
  "py_strip s = rev (dropWhile is_space (rev (dropWhile is_space s)))"

definition ascii_lower :: "nat \<Rightarrow> nat" where
  "ascii_lower c = (if 65 \<le> c \<and> c \<le> 90 then c + 32 else c)"

definition lower :: "pystr \<Rightarrow> pystr" where
  "lower s = map ascii_lower s"

definition bool_str :: "bool \<Rightarrow> pystr" where
  "bool_str b = (if b then ustr ''True'' else ustr ''False'')"

fun join :: "pystr \<Rightarrow> pystr list \<Rightarrow> pystr" where
  "join sep [] = []"
| "join sep [x] = x"
| "join sep (x # y # ys) = x @ sep @ join sep (y # ys)"

section \<open>Exceptions\<close>

text \<open>
  Every exception below is a subclass of \<open>Exception\<close>, which is what the handlers of the
  program catch. \<open>OtherError name message\<close> stands for any exception class the external
  libraries raise. \<open>exn_str\<close> is \<open>str(e)\<close>; for a \<open>KeyError\<close> that is the key in quotes.
\<close>

datatype exn =
    KeyError pystr
  | TypeError pystr
  | ValueError pystr
  | AttributeError pystr
  | UnicodeEncodeError pystr
  | Exception pystr
  | OtherError pystr pystr

fun exn_str :: "exn \<Rightarrow> pystr" where
  "exn_str (KeyError k) = [39] @ k @ [39]"
| "exn_str (TypeError m) = m"
| "exn_str (ValueError m) = m"
| "exn_str (AttributeError m) = m"
| "exn_str (UnicodeEncodeError m) = m"
| "exn_str (Exception m) = m"
| "exn_str (OtherError n m) = m"

section \<open>Configuration from the environment\<close>




record config =
  EMAIL_HOST :: "pystr option"
  EMAIL_PORT :: int
  EMAIL_USER :: "pystr option"
  EMAIL_PASS :: "pystr option"
  BACKEND_URL :: pystr
  FRONTEND_URL :: pystr



text \<open>Truth value of an optional string: \<open>None\<close> and \<open>""\<close> are false.\<close>

definition truthy :: "pystr option \<Rightarrow> bool" where
  "truthy v = (case v of None \<Rightarrow> False | Some s \<Rightarrow> s \<noteq> [])"

definition email_config_complete :: "config \<Rightarrow> bool" where
  "email_config_complete cfg = list_all truthy [EMAIL_HOST cfg, EMAIL_USER cfg, EMAIL_PASS cfg]"

section \<open>The message objects of the standard library\<close>

text \<open>
  \<open>email.message.EmailMessage\<close> as far as the program uses it: a list of headers in the
  order they were set and a payload, which is absent, a text, or a list of sub-messages.
  The charset parameter and the transfer-encoding header that the library adds to a text
  part are left out; they play no role in which parts a message has.
\<close>

datatype message = Message (headers: "(pystr \<times> pystr) list") (payload: payload)
  and payload = No_payload | Text_payload pystr | Multipart "message list"

definition new_message :: message where
  "new_message = Message [] No_payload"

definition get_header :: "message \<Rightarrow> pystr \<Rightarrow> pystr option" where
  "get_header msg name = map_of (map (\<lambda>(n, v). (lower n, v)) (headers msg)) (lower name)"

text \<open>
  \<open>get_content_type\<close>: the text of the Content-Type header before the first \<open>;\<close>, stripped
  and in lower case; \<open>text/plain\<close> when there is no header or not exactly one \<open>/\<close>.
\<close>

definition get_content_type :: "message \<Rightarrow> pystr" where
  "get_content_type msg =
     (case get_header msg (ustr ''content-type'') of
        None \<Rightarrow> ustr ''text/plain''
      | Some v \<Rightarrow>
          (let ctype = lower (py_strip (takeWhile (\<lambda>c. c \<noteq> 59) v))
           in if length (filter (\<lambda>c. c = 47) ctype) \<noteq> 1 then ustr ''text/plain'' else ctype))"

definition get_content_maintype :: "message \<Rightarrow> pystr" where
  "get_content_maintype msg = takeWhile (\<lambda>c. c \<noteq> 47) (get_content_type msg)"

definition get_content_subtype :: "message \<Rightarrow> pystr" where
  "get_content_subtype msg = drop 1 (dropWhile (\<lambda>c. c \<noteq> 47) (get_content_type msg))"

text \<open>The headers of which the default policy allows one only (\<open>header_max_count\<close>).\<close>

definition unique_header :: "pystr \<Rightarrow> bool" where
  "unique_header name = (lower name \<in> set (map ustr
     [''subject'', ''date'', ''orig-date'', ''sender'', ''to'', ''cc'', ''bcc'', ''from'',
      ''reply-to'', ''mime-version'', ''content-type'', ''content-disposition'',
      ''content-transfer-encoding'', ''message-id'']))"

text \<open>
  \<open>msg[name] = value\<close>. The policy's \<open>header_store_parse\<close> refuses some values (those with
  line breaks); it is the parameter \<open>header_check\<close>.
\<close>

definition set_header ::
  "(pystr \<Rightarrow> pystr \<Rightarrow> exn option) \<Rightarrow> pystr \<Rightarrow> pystr \<Rightarrow> message \<Rightarrow> exn + message" where
  "set_header header_check name val msg =
     (if unique_header name \<and> get_header msg name \<noteq> None
      then Inl (ValueError (ustr ''There may be at most 1 '' @ name @ ustr '' headers in a message''))
      else case header_check name val of
             Some e \<Rightarrow> Inl e
           | None \<Rightarrow> Inr (Message (headers msg @ [(name, val)]) (payload msg)))"

definition is_content_header :: "pystr \<times> pystr \<Rightarrow> bool" where
  "is_content_header h = startswith (lower (fst h)) (ustr ''content-'')"

text \<open>
  \<open>EmailMessage.set_content(text, subtype=...)\<close>: refused on a message whose content type
  is multipart; otherwise the content headers are cleared and the text becomes the payload.
\<close>

definition set_content :: "pystr \<Rightarrow> pystr \<Rightarrow> message \<Rightarrow> exn + message" where
  "set_content text subtype msg =
     (if get_content_maintype msg = ustr ''multipart''
      then Inl (TypeError (ustr ''set_content not valid on multipart''))
      else
        (let kept = filter (\<lambda>h. \<not> is_content_header h) (headers msg);
             hs = kept @ [(ustr ''Content-Type'', ustr ''text/'' @ subtype)];
             hs' = (if map_of (map (\<lambda>(n, v). (lower n, v)) hs) (ustr ''mime-version'') = None
                    then hs @ [(ustr ''MIME-Version'', ustr ''1.0'')] else hs)
         in Inr (Message hs' (Text_payload text))))"

text \<open>\<open>Message.attach\<close>.\<close>

definition attach :: "message \<Rightarrow> message \<Rightarrow> exn + message" where
  "attach part msg =
     (case payload msg of
        No_payload \<Rightarrow> Inr (Message (headers msg) (Multipart [part]))
      | Multipart ps \<Rightarrow> Inr (Message (headers msg) (Multipart (ps @ [part])))
      | Text_payload t \<Rightarrow>
          Inl (TypeError (ustr ''Attach is not valid on a message with a non-multipart payload'')))"

text \<open>\<open>make_alternative\<close>: existing content moves into the first sub-message.\<close>

definition make_alternative :: "message \<Rightarrow> exn + message" where
  "make_alternative msg =
     (if get_content_maintype msg = ustr ''multipart''
         \<and> get_content_subtype msg \<in> {ustr ''mixed'', ustr ''alternative''}
      then Inl (ValueError (ustr ''Cannot convert '' @ get_content_subtype msg @ ustr '' to alternative''))
      else
        (let part_headers = filter is_content_header (headers msg);
             keep_headers = filter (\<lambda>h. \<not> is_content_header h) (headers msg);
             pl = (if part_headers \<noteq> [] then Multipart [Message part_headers (payload msg)]
                   else Multipart [])
         in Inr (Message (keep_headers @ [(ustr ''Content-Type'', ustr ''multipart/alternative'')]) pl)))"

text \<open>\<open>add_alternative(text, subtype=...)\<close>.\<close>

definition add_alternative :: "pystr \<Rightarrow> pystr \<Rightarrow> message \<Rightarrow> exn + message" where
  "add_alternative text subtype msg =
     (case (if get_content_maintype msg \<noteq> ustr ''multipart''
               \<or> get_content_subtype msg \<noteq> ustr ''alternative''
            then make_alternative msg else Inr msg) of
        Inl e \<Rightarrow> Inl e
      | Inr msg' \<Rightarrow>
          (case set_content text subtype new_message of
             Inl e \<Rightarrow> Inl e
           | Inr part \<Rightarrow> attach part msg'))"

text \<open>The content types of the bodies of a message, in order.\<close>

definition body_types :: "message \<Rightarrow> pystr list" where
  "body_types msg =
     (case payload msg of
        No_payload \<Rightarrow> []
      | Text_payload t \<Rightarrow> [get_content_type msg]
      | Multipart ps \<Rightarrow> map get_content_type ps)"

section \<open>The external collaborators\<close>

text \<open>
  What the program reaches outside itself: the template environment (\<open>env\<close>, absent when
  no template directory was found), the database, the token generator of
  \<open>utils/tokens.py\<close>, library calls that are not modelled (\<open>str.title\<close>, the header
  validation of the mail policy, \<open>MIMEText\<close>), and the SMTP server. Each may raise.
\<close>

record templates =
  amp_template :: "leave_dict \<Rightarrow> exn + pystr"
  html_template :: "leave_dict \<Rightarrow> exn + pystr"

datatype smtp_event =
    Connect pystr int
  | Starttls
  | Login pystr pystr
  | Send_message message

type_synonym token_call = "pystr \<times> pystr \<times> pystr \<times> int"

record world =
  env :: "templates option"
  import_db :: "exn option"
  find_one :: "pyval \<Rightarrow> exn + (pystr \<times> pyval) list option"
  generate_approval_token :: "pystr \<Rightarrow> pystr \<Rightarrow> pystr \<Rightarrow> int \<Rightarrow> exn + pystr"
  str_title :: "pystr \<Rightarrow> pystr"
  header_check :: "pystr \<Rightarrow> pystr \<Rightarrow> exn option"
  mime_text :: "pystr \<Rightarrow> exn option"
  smtp_connect :: "pystr \<Rightarrow> int \<Rightarrow> exn option"
  smtp_starttls :: "exn option"
  smtp_login :: "pystr \<Rightarrow> pystr \<Rightarrow> exn option"
  smtp_send_message :: "message \<Rightarrow> exn option"

text \<open>
  What a call leaves behind and returns: the caller's dictionary as mutated, the calls
  made to the token generator, the SMTP operations attempted, the lines printed by the
  exception handler, and the result: a value returned, or an exception that reaches the
  caller. The function returns \<open>None\<close> or the dictionary \<open>{"error": message}\<close>.
\<close>

datatype retval = Ret_None | Ret_error_dict pystr

record run =
  leave :: leave_dict
  token_calls :: "token_call list"
  smtp_log :: "smtp_event list"
  printed :: "pystr list"

section \<open>send\_leave\_action\_email\<close>

text \<open>Lines 75: the message of the configuration error.\<close>

definition config_error_msg :: "config \<Rightarrow> pystr" where
  "config_error_msg cfg =
     ustr ''Email configuration incomplete - HOST: '' @ bool_str (truthy (EMAIL_HOST cfg))
       @ ustr '', USER: '' @ bool_str (truthy (EMAIL_USER cfg))
       @ ustr '', PASS: '' @ bool_str (truthy (EMAIL_PASS cfg))"

text \<open>Lines 80 to 86: \<open>(backend_url, frontend_url)\<close>.\<close>

definition resolve_urls :: "config \<Rightarrow> pystr \<times> pystr" where
  "resolve_urls cfg =
     (if BACKEND_URL cfg = [] \<or> FRONTEND_URL cfg = []
      then (ustr ''http://localhost:8000'', ustr ''http://localhost:5173'')
      else (BACKEND_URL cfg, FRONTEND_URL cfg))"

text \<open>
  Lines 91 to 109: the imports and the refresh of the dictionary from the database. The
  dictionary is returned as far as it was mutated when an exception stops the block.
\<close>

definition refresh_leave :: "world \<Rightarrow> leave_dict \<Rightarrow> leave_dict \<times> exn option" where
  "refresh_leave w d =
     (case import_db w of
        Some e \<Rightarrow> (d, Some e)
      | None \<Rightarrow>
     (case d (ustr ''_id'') of
        None \<Rightarrow> (d, None)
      | Some idv \<Rightarrow>
     (case find_one w idv of
        Inl e \<Rightarrow> (d, Some e)
      | Inr None \<Rightarrow> (d, None)
      | Inr (Some fresh_leave) \<Rightarrow>
          if fresh_leave = [] then (d, None)
          else
            (let d1 = d ++ map_of fresh_leave in
             case map_of fresh_leave (ustr ''_id'') of
               None \<Rightarrow> (d1, Some (KeyError (ustr ''_id'')))
             | Some i \<Rightarrow>
            (let d2 = d1(ustr ''_id'' \<mapsto> PStr (py_str i)) in
             case map_of fresh_leave (ustr ''manager_id'') of
               None \<Rightarrow> (d2, Some (KeyError (ustr ''manager_id'')))
             | Some m \<Rightarrow>
            (let d3 = d2(ustr ''manager_id'' \<mapsto> PStr (py_str m)) in
             case map_of fresh_leave (ustr ''employee_id'') of
               None \<Rightarrow> (d3, Some (KeyError (ustr ''employee_id'')))
             | Some em \<Rightarrow> (d3(ustr ''employee_id'' \<mapsto> PStr (py_str em)), None)))))))"

text \<open>
  Lines 112 to 121: the two tokens. Each call to the generator is recorded before its
  outcome is known.
\<close>

definition generate_tokens :: "world \<Rightarrow> run \<Rightarrow> run \<times> (exn + pystr \<times> pystr)" where
  "generate_tokens w r =
     (case leave r (ustr ''_id'') of
        None \<Rightarrow> (r, Inl (KeyError (ustr ''_id'')))
      | Some i \<Rightarrow>
     (case leave r (ustr ''manager_id'') of
        None \<Rightarrow> (r, Inl (KeyError (ustr ''manager_id'')))
      | Some m \<Rightarrow>
     (let leave_id = py_str i;
          manager_id = py_str m;
          r1 = r\<lparr>token_calls := token_calls r @ [(leave_id, manager_id, ustr ''approve'', 24)]\<rparr>
      in case generate_approval_token w leave_id manager_id (ustr ''approve'') 24 of
           Inl e \<Rightarrow> (r1, Inl e)
         | Inr approval_token \<Rightarrow>
     (let r2 = r1\<lparr>token_calls := token_calls r1 @ [(leave_id, manager_id, ustr ''reject'', 24)]\<rparr>
      in case generate_approval_token w leave_id manager_id (ustr ''reject'') 24 of
           Inl e \<Rightarrow> (r2, Inl e)
         | Inr rejection_token \<Rightarrow>
             (r2\<lparr>leave := (leave r2)(ustr ''approval_token'' \<mapsto> PStr approval_token,
                                       ustr ''rejection_token'' \<mapsto> PStr rejection_token)\<rparr>,
              Inr (approval_token, rejection_token))))))"

text \<open>Lines 124 to 128.\<close>

definition ensure_total_days :: "leave_dict \<Rightarrow> leave_dict" where
  "ensure_total_days d =
     (if d (ustr ''days'') \<noteq> None \<and> d (ustr ''total_days'') = None
      then d(ustr ''total_days'' := d (ustr ''days''))
      else if d (ustr ''total_days'') = None \<and> d (ustr ''days'') = None
      then d(ustr ''total_days'' \<mapsto> PStr (ustr ''N/A''), ustr ''days'' \<mapsto> PStr (ustr ''N/A''))
      else d)"

text \<open>Lines 131 and 132.\<close>

definition add_urls :: "pystr \<Rightarrow> pystr \<Rightarrow> leave_dict \<Rightarrow> leave_dict" where
  "add_urls backend_url frontend_url d =
     d(ustr ''backend_url'' \<mapsto> PStr backend_url, ustr ''frontend_url'' \<mapsto> PStr frontend_url)"

text \<open>
  Lines 145 to 177: \<open>(amp_content, html_content)\<close>. Nothing escapes this block: the
  exceptions of the templates are caught inside it.
\<close>

definition render_email_content :: "templates option \<Rightarrow> leave_dict \<Rightarrow> pystr \<Rightarrow> pystr \<times> pystr" where
  "render_email_content e leave_dict backend_url =
     (case e of
        None \<Rightarrow> get_fallback_email_content leave_dict backend_url
      | Some t \<Rightarrow>
          (case amp_template t leave_dict of
             Inl template_error \<Rightarrow> get_fallback_email_content leave_dict backend_url
           | Inr amp_content \<Rightarrow>
               (case html_template t leave_dict of
                  Inl template_error \<Rightarrow> get_fallback_email_content leave_dict backend_url
                | Inr html_content \<Rightarrow>
                    if amp_content = [] \<or> length amp_content < 100
                    then get_fallback_email_content leave_dict backend_url
                    else if contains amp_content (ustr ''{{ leave.'')
                    then get_fallback_email_content leave_dict backend_url
                    else (amp_content, html_content))))"

text \<open>Lines 189 to 204: the plain-text body.\<close>

definition text_content_pieces :: "leave_dict \<Rightarrow> pystr \<Rightarrow> pystr list" where
  \<open>text_content_pieces leave_dict backend_url = [
     nl,
     ustr ''Leave Request Approval Required'' @ nl,
     nl,
     ustr ''Employee: '',
     py_str (dict_get_default leave_dict (ustr ''employee_name'') (PStr (ustr ''N/A''))),
     nl,
     ustr ''Department: '',
     py_str (dict_get_default leave_dict (ustr ''employee_department'') (PStr (ustr ''N/A''))),
     nl,
     ustr ''Leave Type: '',
     py_str (dict_get_default leave_dict (ustr ''leave_type'') (PStr (ustr ''N/A''))),
     nl,
     ustr ''Start Date: '',
     py_str (dict_get_default leave_dict (ustr ''start_date'') (PStr (ustr ''N/A''))),
     nl,
     ustr ''End Date: '',
     py_str (dict_get_default leave_dict (ustr ''end_date'') (PStr (ustr ''N/A''))),
     nl,
     ustr ''Days: '',
     py_str (dict_get_default leave_dict (ustr ''days'') (PStr (ustr ''N/A''))),
     nl,
     ustr ''Reason: '',
     py_str (dict_get_default leave_dict (ustr ''reason'') (PStr (ustr ''N/A''))),
     nl,
     nl,
     ustr ''To approve or reject this leave request, please visit:'' @ nl,
     approve_url leave_dict backend_url,
     nl,
     nl,
     ustr ''This is an automated notification from the Leave Management System.'' @ nl,
     ustr ''        '']\<close>

definition text_content :: "leave_dict \<Rightarrow> pystr \<Rightarrow> pystr" where
  "text_content leave_dict backend_url = py_strip (concat (text_content_pieces leave_dict backend_url))"

text \<open>
  Line 180: the subject. \<open>title\<close> exists on strings only; on any other value the attribute
  lookup raises, with the name of the value's class in the message.
\<close>

definition no_title :: "pystr \<Rightarrow> exn" where
  "no_title class_name =
     AttributeError ([39] @ class_name @ [39] @ ustr '' object has no attribute '' @ [39] @ ustr ''title'' @ [39])"

definition subject_line :: "world \<Rightarrow> leave_dict \<Rightarrow> exn + pystr" where
  "subject_line w d =
     (case dict_get_default d (ustr ''status'') (PStr (ustr ''Approval'')) of
        PStr s \<Rightarrow> Inr (ustr ''Leave Request '' @ str_title w s @ ustr '' - ''
                        @ py_str (dict_get_default d (ustr ''employee_name'') (PStr (ustr ''Employee''))))
      | PNone \<Rightarrow> Inl (no_title (ustr ''NoneType''))
      | PInt i \<Rightarrow> Inl (no_title (ustr ''int''))
      | PObj c x \<Rightarrow> Inl (no_title c))"

text \<open>Lines 179 to 186: the message and its five headers.\<close>

definition message_headers :: "world \<Rightarrow> config \<Rightarrow> leave_dict \<Rightarrow> exn + message" where
  "message_headers w cfg d =
     (case subject_line w d of
        Inl e \<Rightarrow> Inl e
      | Inr subject \<Rightarrow>
     (case set_header (header_check w) (ustr ''Subject'') subject new_message of
        Inl e \<Rightarrow> Inl e
      | Inr m1 \<Rightarrow>
     (case set_header (header_check w) (ustr ''From'')
             (case EMAIL_USER cfg of None \<Rightarrow> ustr ''None'' | Some a \<Rightarrow> a) m1 of
        Inl e \<Rightarrow> Inl e
      | Inr m2 \<Rightarrow>
     (case d (ustr ''manager_email'') of
        None \<Rightarrow> Inl (KeyError (ustr ''manager_email''))
      | Some manager_email \<Rightarrow>
     (case set_header (header_check w) (ustr ''To'') (py_str manager_email) m2 of
        Inl e \<Rightarrow> Inl e
      | Inr m3 \<Rightarrow>
     (case set_header (header_check w) (ustr ''X-Amp-Source-Origin'')
             (if FRONTEND_URL cfg \<noteq> [] then FRONTEND_URL cfg
              else ustr ''https://leave-approval.vercel.app'') m3 of
        Inl e \<Rightarrow> Inl e
      | Inr m4 \<Rightarrow>
          set_header (header_check w) (ustr ''Content-Type'') (ustr ''multipart/alternative'') m4))))))"

text \<open>
  Lines 211 to 222: the AMP part, built by hand and attached; on any exception of that,
  added as a further alternative.
\<close>

definition amp_part :: "pystr \<Rightarrow> message" where
  "amp_part amp_content =
     Message [(ustr ''Content-Type'', ustr ''text/x-amp-html''), (ustr ''MIME-Version'', ustr ''1.0'')]
       (Text_payload amp_content)"

definition attach_amp :: "world \<Rightarrow> pystr \<Rightarrow> message \<Rightarrow> exn + message" where
  "attach_amp w amp_content msg =
     (case (case mime_text w amp_content of
              Some e \<Rightarrow> Inl e
            | None \<Rightarrow> attach (amp_part amp_content) msg) of
        Inr msg' \<Rightarrow> Inr msg'
      | Inl amp_error \<Rightarrow> add_alternative amp_content (ustr ''html'') msg)"

text \<open>Lines 179 to 222: the message as composed.\<close>

definition compose_message ::
  "world \<Rightarrow> config \<Rightarrow> leave_dict \<Rightarrow> pystr \<Rightarrow> pystr \<Rightarrow> pystr \<Rightarrow> exn + message" where
  "compose_message w cfg d backend_url amp_content html_content =
     (case message_headers w cfg d of
        Inl e \<Rightarrow> Inl e
      | Inr msg \<Rightarrow>
     (case set_content (text_content d backend_url) (ustr ''plain'') msg of
        Inl e \<Rightarrow> Inl e
      | Inr msg1 \<Rightarrow>
     (case add_alternative html_content (ustr ''html'') msg1 of
        Inl e \<Rightarrow> Inl e
      | Inr msg2 \<Rightarrow> attach_amp w amp_content msg2)))"

text \<open>
  Lines 224 to 227, and 321 to 326: connect, \<open>starttls\<close>, \<open>login\<close>, \<open>send_message\<close>. Every
  operation attempted is recorded, also the one that raises.
\<close>

definition smtp_deliver ::
  "world \<Rightarrow> config \<Rightarrow> message \<Rightarrow> smtp_event list \<Rightarrow> smtp_event list \<times> exn option" where
  "smtp_deliver w cfg msg log =
     (let host = (case EMAIL_HOST cfg of None \<Rightarrow> [] | Some h \<Rightarrow> h);
          user = (case EMAIL_USER cfg of None \<Rightarrow> [] | Some a \<Rightarrow> a);
          pass = (case EMAIL_PASS cfg of None \<Rightarrow> [] | Some p \<Rightarrow> p);
          log1 = log @ [Connect host (EMAIL_PORT cfg)]
      in case smtp_connect w host (EMAIL_PORT cfg) of
           Some e \<Rightarrow> (log1, Some e)
         | None \<Rightarrow>
      (case smtp_starttls w of
           Some e \<Rightarrow> (log1 @ [Starttls], Some e)
         | None \<Rightarrow>
      (case smtp_login w user pass of
           Some e \<Rightarrow> (log1 @ [Starttls, Login user pass], Some e)
         | None \<Rightarrow>
           (log1 @ [Starttls, Login user pass, Send_message msg], smtp_send_message w msg))))"

text \<open>The body of the \<open>try\<close> (lines 68 to 232).\<close>

definition send_leave_action_email_try :: "world \<Rightarrow> config \<Rightarrow> run \<Rightarrow> run \<times> (exn + retval)" where
  "send_leave_action_email_try w cfg r =
     (if \<not> email_config_complete cfg then (r, Inr (Ret_error_dict (config_error_msg cfg)))
      else
        (let backend_url = fst (resolve_urls cfg);
             frontend_url = snd (resolve_urls cfg)
         in case refresh_leave w (leave r) of
              (d, Some e) \<Rightarrow> (r\<lparr>leave := d\<rparr>, Inl e)
            | (d, None) \<Rightarrow>
          (case generate_tokens w (r\<lparr>leave := d\<rparr>) of
              (r1, Inl e) \<Rightarrow> (r1, Inl e)
            | (r1, Inr toks) \<Rightarrow>
          (let r2 = r1\<lparr>leave := add_urls backend_url frontend_url (ensure_total_days (leave r1))\<rparr>;
               contents = render_email_content (env w) (leave r2) backend_url
           in case compose_message w cfg (leave r2) backend_url (fst contents) (snd contents) of
                Inl e \<Rightarrow> (r2, Inl e)
              | Inr msg \<Rightarrow>
                  (case smtp_deliver w cfg msg (smtp_log r2) of
                     (log, Some e) \<Rightarrow> (r2\<lparr>smtp_log := log\<rparr>, Inl e)
                   | (log, None) \<Rightarrow> (r2\<lparr>smtp_log := log\<rparr>, Inr Ret_None))))))"

text \<open>
  The function: the \<open>try\<close> with its handler (lines 234 to 237), which prints two lines and
  lets the function return \<open>None\<close>.
\<close>

definition start_run :: "leave_dict \<Rightarrow> run" where
  "start_run leave_dict = \<lparr>leave = leave_dict, token_calls = [], smtp_log = [], printed = []\<rparr>"

definition send_leave_action_email :: "world \<Rightarrow> config \<Rightarrow> leave_dict \<Rightarrow> run \<times> (exn + retval)" where
  "send_leave_action_email w cfg leave_dict =
     (case send_leave_action_email_try w cfg (start_run leave_dict) of
        (r, Inr v) \<Rightarrow> (r, Inr v)
      | (r, Inl e) \<Rightarrow>
          (r\<lparr>printed := printed r @
               [ustr ''Failed to send email notification: '' @ exn_str e,
                ustr ''Leave request was still processed successfully'']\<rparr>,
           Inr Ret_None))"

section \<open>send\_password\_reset\_otp\<close>

text \<open>Lines 248 to 253: the names of the variables that are missing, and the message.\<close>

definition missing_vars :: "config \<Rightarrow> pystr list" where
  "missing_vars cfg =
     (if \<not> truthy (EMAIL_HOST cfg) then [ustr ''EMAIL_HOST''] else [])
     @ (if \<not> truthy (EMAIL_USER cfg) then [ustr ''EMAIL_USER''] else [])
     @ (if \<not> truthy (EMAIL_PASS cfg) then [ustr ''EMAIL_PASS''] else [])"

definition otp_error_msg :: "config \<Rightarrow> pystr" where
  "otp_error_msg cfg =
     ustr ''Email configuration not available. Missing: '' @ join (ustr '', '') (missing_vars cfg)"

text \<open>Lines 260 to 294 and 297 to 310: the two bodies.\<close>

definition otp_html_pieces :: "pystr \<Rightarrow> pystr list" where
  \<open>otp_html_pieces otp = [
     nl,
     ustr ''            <!DOCTYPE html>'' @ nl,
     ustr ''            <html>'' @ nl,
     ustr ''              <head>'' @ nl,
     ustr ''                <meta charset="utf-8">'' @ nl,
     ustr ''                <title>Password Reset OTP</title>'' @ nl,
     ustr ''              </head>'' @ nl,
     ustr ''              <body style="font-family: Arial, sans-serif; line-height: 1.6; color: #333; max-width: 600px; margin: 0 auto; padding: 20px;">'' @ nl,
     ustr ''                <div style="background: linear-gradient(135deg, #667eea 0%, #764ba2 100%); color: white; padding: 20px; border-radius: 10px 10px 0 0; text-align: center;">'' @ nl,
     ustr ''                  <h1 style="margin: 0; font-size: 24px;">Password Reset Request</h1>'' @ nl,
     ustr ''                </div>'' @ nl,
     ustr ''                <div style="background: #f9f9f9; padding: 30px; border-radius: 0 0 10px 10px; border: 1px solid #ddd;">'' @ nl,
     ustr ''                  <p style="font-size: 16px; margin-bottom: 20px;">You have requested to reset your password for the Leave Management System.</p>'' @ nl,
     ustr ''                  '' @ nl,
     ustr ''                  <div style="background: white; padding: 20px; border-radius: 8px; text-align: center; margin: 20px 0; border: 2px solid #667eea;">'' @ nl,
     ustr ''                    <p style="margin: 0 0 10px 0; font-weight: bold; color: #666;">Your One-Time Password (OTP) is:</p>'' @ nl,
     ustr ''                    <h2 style="margin: 0; font-size: 32px; letter-spacing: 8px; color: #667eea; font-family: 'Courier New', monospace;">'',
     otp,
     ustr ''</h2>'' @ nl,
     ustr ''                  </div>'' @ nl,
     ustr ''                  '' @ nl,
     ustr ''                  <div style="background: #fff3cd; border: 1px solid #ffeaa7; padding: 15px; border-radius: 5px; margin: 20px 0;">'' @ nl,
     ustr ''                    <p style="margin: 0; color: #856404;"><strong>Important:</strong></p>'' @ nl,
     ustr ''                    <ul style="margin: 10px 0; color: #856404;">'' @ nl,
     ustr ''                      <li>This OTP expires in <strong>10 minutes</strong></li>'' @ nl,
     ustr ''                      <li>You can only use this OTP <strong>once</strong></li>'' @ nl,
     ustr ''                      <li>If you didn't request this, please ignore this email</li>'' @ nl,
     ustr ''                    </ul>'' @ nl,
     ustr ''                  </div>'' @ nl,
     ustr ''                  '' @ nl,
     ustr ''                  <p style="font-size: 14px; color: #666; margin-top: 30px;">'' @ nl,
     ustr ''                    This is an automated message. Please do not reply to this email.'' @ nl,
     ustr ''                  </p>'' @ nl,
     ustr ''                </div>'' @ nl,
     ustr ''              </body>'' @ nl,
     ustr ''            </html>'' @ nl,
     ustr ''        '']\<close>

definition otp_text_pieces :: "pystr \<Rightarrow> pystr list" where
  \<open>otp_text_pieces otp = [
     nl,
     ustr ''Password Reset Request - Leave Management System'' @ nl,
     nl,
     ustr ''You have requested to reset your password.'' @ nl,
     nl,
     ustr ''Your One-Time Password (OTP) is: '',
     otp,
     nl,
     nl,
     ustr ''Important:'' @ nl,
     ustr ''- This OTP expires in 10 minutes'' @ nl,
     ustr ''- You can only use this OTP once'' @ nl,
     ustr ''- If you didn't request this, please ignore this email'' @ nl,
     nl,
     ustr ''This is an automated message. Please do not reply to this email.'' @ nl,
     ustr ''        '']\<close>

text \<open>Lines 312 to 317: the message.\<close>

definition otp_message :: "world \<Rightarrow> config \<Rightarrow> pystr \<Rightarrow> pystr \<Rightarrow> exn + message" where
  "otp_message w cfg recipient_email otp =
     (case set_header (header_check w) (ustr ''Subject'')
             (ustr ''Your Password Reset OTP - Leave Management System'') new_message of
        Inl e \<Rightarrow> Inl e
      | Inr m1 \<Rightarrow>
     (case set_header (header_check w) (ustr ''From'')
             (case EMAIL_USER cfg of None \<Rightarrow> ustr ''None'' | Some a \<Rightarrow> a) m1 of
        Inl e \<Rightarrow> Inl e
      | Inr m2 \<Rightarrow>
     (case set_header (header_check w) (ustr ''To'') recipient_email m2 of
        Inl e \<Rightarrow> Inl e
      | Inr m3 \<Rightarrow>
     (case set_content (py_strip (concat (otp_text_pieces otp))) (ustr ''plain'') m3 of
        Inl e \<Rightarrow> Inl e
      | Inr m4 \<Rightarrow> add_alternative (concat (otp_html_pieces otp)) (ustr ''html'') m4))))"

text \<open>
  The function: the \<open>try\<close> (lines 245 to 328) and its handler (lines 329 to 331), which
  prints one line and raises the exception again. The result is the SMTP operations
  attempted, the line the handler printed, and the value returned or the exception that
  reaches the caller.
\<close>

record otp_run =
  otp_smtp_log :: "smtp_event list"
  otp_printed :: "pystr list"

definition send_password_reset_otp_try ::
  "world \<Rightarrow> config \<Rightarrow> pystr \<Rightarrow> pystr \<Rightarrow> smtp_event list \<times> (exn + retval)" where
  "send_password_reset_otp_try w cfg recipient_email otp =
     (if \<not> email_config_complete cfg then ([], Inl (Exception (otp_error_msg cfg)))
      else
        (case otp_message w cfg recipient_email otp of
           Inl e \<Rightarrow> ([], Inl e)
         | Inr msg \<Rightarrow>
             (case smtp_deliver w cfg msg [] of
                (log, Some e) \<Rightarrow> (log, Inl e)
              | (log, None) \<Rightarrow> (log, Inr Ret_None))))"

definition send_password_reset_otp ::
  "world \<Rightarrow> config \<Rightarrow> pystr \<Rightarrow> pystr \<Rightarrow> otp_run \<times> (exn + retval)" where
  "send_password_reset_otp w cfg recipient_email otp =
     (case send_password_reset_otp_try w cfg recipient_email otp of
        (log, Inr v) \<Rightarrow> (\<lparr>otp_smtp_log = log, otp_printed = []\<rparr>, Inr v)
      | (log, Inl e) \<Rightarrow>
          (\<lparr>otp_smtp_log = log,
            otp_printed = [[10060] @ ustr '' Failed to send password reset OTP: '' @ exn_str e]\<rparr>,
           Inl e))"

section \<open>The AMP CORS middleware\<close>

text \<open>
  A request as the middleware reads it: the path of the URL, the query parameters in the
  order of the query string (already decoded once by the framework, blank values kept),
  and the headers, their names in lower case. \<open>query_params.get\<close> gives the last value of
  a repeated parameter; \<open>headers.get\<close> looks the name up in lower case.
\<close>

record request =
  path :: pystr
  query_params :: "(pystr \<times> pystr) list"
  req_headers :: "(pystr \<times> pystr) list"

record response =
  status_code :: nat
  resp_headers :: "(pystr \<times> pystr) list"
  body :: pystr

definition query_get :: "(pystr \<times> pystr) list \<Rightarrow> pystr \<Rightarrow> pystr option" where
  "query_get qs k = map_of (rev qs) k"

definition headers_get :: "(pystr \<times> pystr) list \<Rightarrow> pystr \<Rightarrow> pystr \<Rightarrow> pystr" where
  "headers_get hs name dflt = (case map_of hs (lower name) of None \<Rightarrow> dflt | Some v \<Rightarrow> v)"

text \<open>
  \<open>response.headers[name] = value\<close>: name and value are encoded as Latin-1, which fails
  on a code point above 255; the first header of that name is overwritten and any
  further ones are deleted, or the header is appended.
\<close>

fun replace_header :: "pystr \<Rightarrow> pystr \<Rightarrow> (pystr \<times> pystr) list \<Rightarrow> (pystr \<times> pystr) list" where
  "replace_header k v [] = [(k, v)]"
| "replace_header k v (h # hs) =
     (if fst h = k then (k, v) # filter (\<lambda>h'. fst h' \<noteq> k) hs else h # replace_header k v hs)"

definition latin1 :: "pystr \<Rightarrow> bool" where
  "latin1 s = list_all (\<lambda>c. c < 256) s"

definition set_response_header :: "pystr \<Rightarrow> pystr \<Rightarrow> response \<Rightarrow> exn + response" where
  "set_response_header name val resp =
     (if latin1 name \<and> latin1 val
      then Inr (resp\<lparr>resp_headers := replace_header (lower name) val (resp_headers resp)\<rparr>)
      else Inl (UnicodeEncodeError (ustr ''latin-1'')))"

text \<open>
  \<open>urllib.parse.unquote\<close>: a string without \<open>%\<close> is returned as it is; the decoding of the
  escapes is the library's, a parameter here.
\<close>

definition unquote :: "(pystr \<Rightarrow> pystr) \<Rightarrow> pystr \<Rightarrow> pystr" where
  "unquote decode_escapes s = (if 37 \<in> set s then decode_escapes s else s)"

text \<open>Lines 46 to 54: the value of \<open>AMP-Access-Control-Allow-Source-Origin\<close>.\<close>

definition source_origin :: "(pystr \<Rightarrow> pystr) \<Rightarrow> request \<Rightarrow> pystr" where
  "source_origin decode_escapes req =
     (case query_get (query_params req) (ustr ''__amp_source_origin'') of
        None \<Rightarrow> headers_get (req_headers req) (ustr ''Origin'') (ustr ''*'')
      | Some amp_source_origin \<Rightarrow>
          if amp_source_origin \<noteq> [] then unquote decode_escapes amp_source_origin
          else headers_get (req_headers req) (ustr ''Origin'') (ustr ''*''))"

text \<open>Lines 56 to 60: the five fixed headers.\<close>

definition fixed_cors_headers :: "(pystr \<times> pystr) list" where
  "fixed_cors_headers =
     [(ustr ''Access-Control-Allow-Origin'', ustr ''*''),
      (ustr ''Access-Control-Allow-Methods'', ustr ''GET, POST, PUT, DELETE, OPTIONS''),
      (ustr ''Access-Control-Allow-Headers'', ustr ''*''),
      (ustr ''Access-Control-Expose-Headers'', ustr ''*''),
      (ustr ''Access-Control-Allow-Credentials'', ustr ''true'')]"

fun set_response_headers :: "(pystr \<times> pystr) list \<Rightarrow> response \<Rightarrow> exn + response" where
  "set_response_headers [] resp = Inr resp"
| "set_response_headers ((n, v) # hs) resp =
     (case set_response_header n v resp of
        Inl e \<Rightarrow> Inl e
      | Inr resp' \<Rightarrow> set_response_headers hs resp')"

text \<open>
  The middleware (lines 39 to 62). \<open>call_next\<close> is the rest of the application; what it
  raises passes through.
\<close>

definition add_amp_cors_headers ::
  "(pystr \<Rightarrow> pystr) \<Rightarrow> (request \<Rightarrow> exn + response) \<Rightarrow> request \<Rightarrow> exn + response" where
  "add_amp_cors_headers decode_escapes call_next req =
     (case call_next req of
        Inl e \<Rightarrow> Inl e
      | Inr resp \<Rightarrow>
          if startswith (path req) (ustr ''/leave/'')
          then set_response_headers
                 ((ustr ''AMP-Access-Control-Allow-Source-Origin'', source_origin decode_escapes req)
                    # fixed_cors_headers) resp
          else Inr resp)"

text \<open>
  The value of the source-origin header as the specification words it: the decoded query
  parameter when present, otherwise the Origin header, otherwise \<open>*\<close>.
\<close>

definition source_origin_as_specified :: "(pystr \<Rightarrow> pystr) \<Rightarrow> request \<Rightarrow> pystr" where
  "source_origin_as_specified decode_escapes req =
     (case query_get (query_params req) (ustr ''__amp_source_origin'') of
        Some v \<Rightarrow> unquote decode_escapes v
      | None \<Rightarrow> headers_get (req_headers req) (ustr ''Origin'') (ustr ''*''))"

section \<open>The approval tokens and their consumption\<close>

text \<open>
  Modelled from the spec: the token module (\<open>utils/tokens.py\<close>) and the routes that
  consume a token (\<open>routes/leave.py\<close>) are not among the sources. The specification
  describes "a time-boxed, single-use approval/rejection token consumed via an emailed
  link". A token names the leave request, the manager and the action, and carries the
  hour at which it expires; the server keeps the status of every leave request and the
  tokens it has consumed. Presenting a token is accepted once, before it expires; an
  accepted token sets the status and is recorded as consumed.
\<close>

datatype action = Approve | Reject

datatype leave_status = Pending | Approved | Rejected

record approval_token =
  tok_leave_id :: pystr
  tok_manager_id :: pystr
  tok_action :: action
  tok_expires_at :: nat

record server =
  leave_statuses :: "pystr \<rightharpoonup> leave_status"
  consumed :: "approval_token list"

text \<open>Modelled from the spec: a token issued at hour \<open>now\<close> with a validity in hours.\<close>

definition issue_token :: "pystr \<Rightarrow> pystr \<Rightarrow> action \<Rightarrow> nat \<Rightarrow> nat \<Rightarrow> approval_token" where
  "issue_token leave_id manager_id act hours now =
     \<lparr>tok_leave_id = leave_id, tok_manager_id = manager_id, tok_action = act,
      tok_expires_at = now + hours\<rparr>"

text \<open>Modelled from the spec: the status an accepted token gives its leave request.\<close>

definition status_of :: "action \<Rightarrow> leave_status" where
  "status_of act = (case act of Approve \<Rightarrow> Approved | Reject \<Rightarrow> Rejected)"

text \<open>
  Modelled from the spec: a request presenting a token; the result is the server afterwards
  and whether the token was accepted.
\<close>

definition consume_token :: "approval_token \<Rightarrow> nat \<Rightarrow> server \<Rightarrow> server \<times> bool" where
  "consume_token tok now srv =
     (if tok \<in> set (consumed srv) \<or> tok_expires_at tok < now then (srv, False)
      else (srv\<lparr>leave_statuses := (leave_statuses srv)(tok_leave_id tok \<mapsto> status_of (tok_action tok)),
                 consumed := tok # consumed srv\<rparr>, True))"

text \<open>
  Modelled from the spec: the server handling a sequence of requests, each presenting a
  token at a time.
\<close>

fun serve :: "(approval_token \<times> nat) list \<Rightarrow> server \<Rightarrow> server" where
  "serve [] srv = srv"
| "serve ((tok, now) # reqs) srv = serve reqs (fst (consume_token tok now srv))"

section \<open>Concrete inputs\<close>

text \<open>
  A world in which every collaborator succeeds and no template directory exists, a
  complete configuration, and a leave dictionary as the route hands it over.
\<close>

definition example_world :: world where
  "example_world = \<lparr>
     env = None,
     import_db = None,
     find_one = (\<lambda>i. Inr None),
     generate_approval_token = (\<lambda>leave_id manager_id act hours. Inr (act @ ustr ''-token'')),
     str_title = (\<lambda>s. s),
     header_check = (\<lambda>n v. None),
     mime_text = (\<lambda>t. None),
     smtp_connect = (\<lambda>h p. None),
     smtp_starttls = None,
     smtp_login = (\<lambda>a p. None),
     smtp_send_message = (\<lambda>m. None) \<rparr>"

definition example_config :: config where
  "example_config = \<lparr>
     EMAIL_HOST = Some (ustr ''smtp.example.com''),
     EMAIL_PORT = 587,
     EMAIL_USER = Some (ustr ''hr@example.com''),
     EMAIL_PASS = Some (ustr ''secret''),
     BACKEND_URL = ustr ''https://api.example.com'',
     FRONTEND_URL = ustr ''https://app.example.com'' \<rparr>"

definition example_leave :: leave_dict where
  "example_leave =
     [ustr ''_id'' \<mapsto> PStr (ustr ''64b7f0c2a1d3e4f5a6b7c8d9''),
      ustr ''manager_id'' \<mapsto> PStr (ustr ''64b7f0c2a1d3e4f5a6b7c8da''),
      ustr ''manager_email'' \<mapsto> PStr (ustr ''boss@example.com''),
      ustr ''days'' \<mapsto> PInt 3]"

definition example_leave_with_tokens :: leave_dict where
  "example_leave_with_tokens =
     example_leave(ustr ''approval_token'' \<mapsto> PStr (ustr ''tokA''),
                   ustr ''rejection_token'' \<mapsto> PStr (ustr ''tokR''))"

text \<open>
  Templates whose AMP output is too short, and requests for the middleware: one with an
  empty source-origin parameter, one with an address, one with a parameter outside
  Latin-1 (a check mark, as the framework decodes \<open>%E2%9C%85\<close>).
\<close>

definition example_templates :: templates where
  "example_templates = \<lparr>
     amp_template = (\<lambda>d. Inr (ustr ''<html></html>'')),
     html_template = (\<lambda>d. Inr (ustr ''<p>leave</p>'')) \<rparr>"

definition example_response :: response where
  "example_response = \<lparr>status_code = 200, resp_headers = [], body = []\<rparr>"

definition example_app :: "request \<Rightarrow> exn + response" where
  "example_app req = Inr example_response"

definition example_request :: request where
  "example_request = \<lparr>
     path = ustr ''/leave/64b7f0c2a1d3e4f5a6b7c8d9/approve'',
     query_params = [(ustr ''__amp_source_origin'', [])],
     req_headers = [(ustr ''origin'', ustr ''https://mail.google.com'')] \<rparr>"

definition example_amp_request :: request where
  "example_amp_request = \<lparr>
     path = ustr ''/leave/64b7f0c2a1d3e4f5a6b7c8d9/approve'',
     query_params = [(ustr ''__amp_source_origin'', ustr ''amp@gmail.dev'')],
     req_headers = [] \<rparr>"

definition example_unicode_request :: request where
  "example_unicode_request = \<lparr>
     path = ustr ''/leave/64b7f0c2a1d3e4f5a6b7c8d9/approve'',
     query_params = [(ustr ''__amp_source_origin'', [9989])],
     req_headers = [] \<rparr>"

definition example_token :: approval_token where
  "example_token = issue_token (ustr ''64b7f0c2a1d3e4f5a6b7c8d9'') (ustr ''64b7f0c2a1d3e4f5a6b7c8da'') Approve 24 0"

definition example_server :: server where
  "example_server = \<lparr>leave_statuses = [ustr ''64b7f0c2a1d3e4f5a6b7c8d9'' \<mapsto> Pending], consumed = []\<rparr>"

section \<open>Names used in the statements\<close>

text \<open>
  The exception with which the composition of the approval message stops, and the leave
  dictionary as it stands after lines 120 to 132 when the refreshed dictionary is \<open>d\<close>
  and the two tokens are \<open>a\<close> and \<open>rj\<close>.
\<close>

definition compose_error :: "world \<Rightarrow> config \<Rightarrow> leave_dict \<Rightarrow> exn" where
  "compose_error w cfg d =
     (case message_headers w cfg d of
        Inl e \<Rightarrow> e
      | Inr msg \<Rightarrow> TypeError (ustr ''set_content not valid on multipart''))"

definition prepared_leave :: "config \<Rightarrow> leave_dict \<Rightarrow> pystr \<Rightarrow> pystr \<Rightarrow> leave_dict" where
  "prepared_leave cfg d a rj =
     add_urls (fst (resolve_urls cfg)) (snd (resolve_urls cfg))
       (ensure_total_days (d(ustr ''approval_token'' \<mapsto> PStr a, ustr ''rejection_token'' \<mapsto> PStr rj)))"

section \<open>Facts about strings\<close>

lemma ustr_eq_iff [simp]: "ustr a = ustr b \<longleftrightarrow> a = b"
  by (simp add: ustr_def inj_on_def)

lemma startswith_append [simp]: "startswith (p @ s) p"
  by (induction p) simp_all

lemma contains_append_left: "contains t sub \<Longrightarrow> contains (s @ t) sub"
  by (induction s) simp_all

lemma startswith_append_right: "startswith s sub \<Longrightarrow> startswith (s @ t) sub"
  by (induction s sub rule: startswith.induct) simp_all

lemma contains_append_right: "contains s sub \<Longrightarrow> contains (s @ t) sub"
proof (induction s)
  case Nil
  then show ?case by (cases t) simp_all
next
  case (Cons c cs)
  then show ?case
    using startswith_append_right [of "c # cs" sub t] by auto
qed

lemma contains_self [simp]: "contains s s"
  by (cases s) (simp_all add: startswith_append [of _ "[]", simplified])

lemma contains_concat_mem: "x \<in> set xs \<Longrightarrow> contains (concat xs) x"
proof (induction xs)
  case Nil
  then show ?case by simp
next
  case (Cons y ys)
  then show ?case
    by (auto intro: contains_append_left contains_append_right)
qed

section \<open>Composition of the approval message\<close>

lemma lower_subject: "lower (ustr ''Subject'') = ustr ''subject''"
  by (simp add: lower_def ustr_def ascii_lower_def)
lemma lower_from: "lower (ustr ''From'') = ustr ''from''"
  by (simp add: lower_def ustr_def ascii_lower_def)
lemma lower_to: "lower (ustr ''To'') = ustr ''to''"
  by (simp add: lower_def ustr_def ascii_lower_def)
lemma lower_xamp: "lower (ustr ''X-Amp-Source-Origin'') = ustr ''x-amp-source-origin''"
  by (simp add: lower_def ustr_def ascii_lower_def)
lemma lower_ctype: "lower (ustr ''Content-Type'') = ustr ''content-type''"
  by (simp add: lower_def ustr_def ascii_lower_def)
lemma lower_ctype': "lower (ustr ''content-type'') = ustr ''content-type''"
  by (simp add: lower_def ustr_def ascii_lower_def)

lemma content_type_multipart_value:
  "lower (py_strip (takeWhile (\<lambda>c. c \<noteq> 59) (ustr ''multipart/alternative''))) = ustr ''multipart/alternative''"
  by (simp add: ustr_def py_strip_def is_space_def lower_def ascii_lower_def)

lemma multipart_slashes:
  "length (filter (\<lambda>c. c = 47) (ustr ''multipart/alternative'')) = 1"
  by (simp add: ustr_def)

lemma multipart_maintype:
  "takeWhile (\<lambda>c. c \<noteq> 47) (ustr ''multipart/alternative'') = ustr ''multipart''"
  by (simp add: ustr_def)


lemma get_header_Nil: "get_header (Message [] p) k = None"
  by (simp add: get_header_def)

lemma get_header_Cons:
  "get_header (Message ((n, v) # hs) p) k =
     (if lower n = lower k then Some v else get_header (Message hs p) k)"
  by (simp add: get_header_def)

lemma set_header_Inr:
  assumes "set_header hc n v msg = Inr m"
  shows "m = Message (headers msg @ [(n, v)]) (payload msg)"
  using assms by (simp add: set_header_def split: if_splits option.splits)

lemma message_headers_Inr:
  assumes "message_headers w cfg d = Inr msg"
  shows "\<exists>s f t x. msg = Message [(ustr ''Subject'', s), (ustr ''From'', f), (ustr ''To'', t),
           (ustr ''X-Amp-Source-Origin'', x), (ustr ''Content-Type'', ustr ''multipart/alternative'')]
           No_payload"
proof -
  from assms obtain s m1 m2 me m3 m4 f x where
    1: "set_header (header_check w) (ustr ''Subject'') s new_message = Inr m1" and
    2: "set_header (header_check w) (ustr ''From'') f m1 = Inr m2" and
    3: "set_header (header_check w) (ustr ''To'') (py_str me) m2 = Inr m3" and
    4: "set_header (header_check w) (ustr ''X-Amp-Source-Origin'') x m3 = Inr m4" and
    5: "set_header (header_check w) (ustr ''Content-Type'') (ustr ''multipart/alternative'') m4 = Inr msg"
    unfolding message_headers_def
    by (simp split: sum.splits option.splits)
  show ?thesis
    using set_header_Inr [OF 1] set_header_Inr [OF 2] set_header_Inr [OF 3]
      set_header_Inr [OF 4] set_header_Inr [OF 5]
    by (simp add: new_message_def)
qed

lemma message_headers_multipart:
  assumes "message_headers w cfg d = Inr msg"
  shows "get_content_maintype msg = ustr ''multipart''"
proof -
  from message_headers_Inr [OF assms] obtain s f t x where
    m: "msg = Message [(ustr ''Subject'', s), (ustr ''From'', f), (ustr ''To'', t),
           (ustr ''X-Amp-Source-Origin'', x), (ustr ''Content-Type'', ustr ''multipart/alternative'')]
           No_payload" by blast
  have "get_header msg (ustr ''content-type'') = Some (ustr ''multipart/alternative'')"
    unfolding m
    by (simp add: get_header_Cons get_header_Nil lower_subject lower_from lower_to lower_xamp
        lower_ctype lower_ctype')
  then show ?thesis
    by (simp add: get_content_maintype_def get_content_type_def Let_def
        content_type_multipart_value multipart_slashes multipart_maintype)
qed

lemma compose_message_raises:
  "compose_message w cfg d backend_url amp html
     = (case message_headers w cfg d of
          Inl e \<Rightarrow> Inl e
        | Inr msg \<Rightarrow> Inl (TypeError (ustr ''set_content not valid on multipart'')))"
  by (simp add: compose_message_def set_content_def message_headers_multipart split: sum.splits)

section \<open>The run of send\_leave\_action\_email\<close>

lemma generate_tokens_ok:
  assumes "leave r (ustr ''_id'') = Some i" and "leave r (ustr ''manager_id'') = Some m"
    and "generate_approval_token w (py_str i) (py_str m) (ustr ''approve'') 24 = Inr a"
    and "generate_approval_token w (py_str i) (py_str m) (ustr ''reject'') 24 = Inr rj"
  shows "generate_tokens w r =
     (r\<lparr>token_calls := token_calls r @ [(py_str i, py_str m, ustr ''approve'', 24),
                                           (py_str i, py_str m, ustr ''reject'', 24)],
        leave := (leave r)(ustr ''approval_token'' \<mapsto> PStr a, ustr ''rejection_token'' \<mapsto> PStr rj)\<rparr>,
      Inr (a, rj))"
  using assms by (simp add: generate_tokens_def Let_def)

lemma generate_tokens_smtp_log: "smtp_log (fst (generate_tokens w r)) = smtp_log r"
  by (simp add: generate_tokens_def Let_def split: option.splits sum.splits)

lemma try_after_tokens:
  assumes "email_config_complete cfg" and "refresh_leave w d = (d', None)"
    and "d' (ustr ''_id'') = Some i" and "d' (ustr ''manager_id'') = Some m"
    and "generate_approval_token w (py_str i) (py_str m) (ustr ''approve'') 24 = Inr a"
    and "generate_approval_token w (py_str i) (py_str m) (ustr ''reject'') 24 = Inr rj"
  shows "send_leave_action_email_try w cfg (start_run d) =
     (\<lparr>leave = prepared_leave cfg d' a rj,
       token_calls = [(py_str i, py_str m, ustr ''approve'', 24),
                      (py_str i, py_str m, ustr ''reject'', 24)],
       smtp_log = [], printed = []\<rparr>,
      Inl (compose_error w cfg (prepared_leave cfg d' a rj)))"
proof -
  let ?r0 = "\<lparr>leave = d', token_calls = [], smtp_log = [], printed = []\<rparr>"
  have g: "generate_tokens w ?r0 =
     (?r0\<lparr>token_calls := token_calls ?r0 @ [(py_str i, py_str m, ustr ''approve'', 24),
                                           (py_str i, py_str m, ustr ''reject'', 24)],
        leave := (leave ?r0)(ustr ''approval_token'' \<mapsto> PStr a, ustr ''rejection_token'' \<mapsto> PStr rj)\<rparr>,
      Inr (a, rj))"
    by (rule generate_tokens_ok) (use assms in simp_all)
  show ?thesis
    using assms(1,2) g
    by (simp add: send_leave_action_email_try_def start_run_def Let_def compose_message_raises
        compose_error_def prepared_leave_def split: sum.splits)
qed

lemma ensure_total_days_keys:
  "ensure_total_days d k =
     (if k = ustr ''total_days'' then
        (case d (ustr ''total_days'') of
           Some t \<Rightarrow> Some t
         | None \<Rightarrow> (case d (ustr ''days'') of Some x \<Rightarrow> Some x | None \<Rightarrow> Some (PStr (ustr ''N/A''))))
      else if k = ustr ''days'' then
        (case d (ustr ''days'') of
           Some x \<Rightarrow> Some x
         | None \<Rightarrow> (case d (ustr ''total_days'') of Some t \<Rightarrow> None | None \<Rightarrow> Some (PStr (ustr ''N/A''))))
      else d k)"
  by (auto simp: ensure_total_days_def split: option.splits)

lemma try_smtp_log: "smtp_log (fst (send_leave_action_email_try w cfg (start_run d))) = []"
proof (cases "email_config_complete cfg")
  case False
  then show ?thesis by (simp add: send_leave_action_email_try_def start_run_def)
next
  case True
  obtain d' x where rf: "refresh_leave w d = (d', x)" by (cases "refresh_leave w d")
  let ?r0 = "\<lparr>leave = d', token_calls = [], smtp_log = [], printed = []\<rparr>"
  obtain r1 res where g: "generate_tokens w ?r0 = (r1, res)" by (cases "generate_tokens w ?r0")
  have "smtp_log r1 = []"
    using generate_tokens_smtp_log [of w ?r0] g by simp
  then show ?thesis
    using True rf g
    by (simp add: send_leave_action_email_try_def start_run_def Let_def compose_message_raises
        split: sum.splits option.splits)
qed

lemma send_smtp_log: "smtp_log (fst (send_leave_action_email w cfg d)) = []"
proof -
  obtain r res where t: "send_leave_action_email_try w cfg (start_run d) = (r, res)"
    by (cases "send_leave_action_email_try w cfg (start_run d)")
  then have "smtp_log r = []" using try_smtp_log [of w cfg d] by simp
  then show ?thesis using t by (simp add: send_leave_action_email_def split: sum.splits)
qed

section \<open>Composition of the password-reset message\<close>

lemma default_content_type: "get_header msg (ustr ''content-type'') = None \<Longrightarrow> get_content_maintype msg = ustr ''text''"
  by (simp add: get_content_maintype_def get_content_type_def ustr_def)

lemma text_ne_multipart: "ustr ''text'' \<noteq> ustr ''multipart''"
  by simp

lemma content_header_names:
  "\<not> is_content_header (ustr ''Subject'', v)"
  "\<not> is_content_header (ustr ''From'', v)"
  "\<not> is_content_header (ustr ''To'', v)"
  "\<not> is_content_header (ustr ''MIME-Version'', v)"
  "is_content_header (ustr ''Content-Type'', v)"
  by (simp_all add: is_content_header_def lower_def ascii_lower_def ustr_def)

lemma lower_mime: "lower (ustr ''MIME-Version'') = ustr ''mime-version''"
  by (simp add: lower_def ustr_def ascii_lower_def)

lemma lower_mime': "lower (ustr ''mime-version'') = ustr ''mime-version''"
  by (simp add: lower_def ustr_def ascii_lower_def)

lemma text_content_type:
  "get_content_type (Message ((ustr ''Content-Type'', ustr ''text/'' @ ustr ''plain'') # hs) p) = ustr ''text/plain''"
  "get_content_type (Message ((ustr ''Content-Type'', ustr ''text/'' @ ustr ''html'') # hs) p) = ustr ''text/html''"
  by (simp_all add: get_content_type_def get_header_Cons lower_ctype lower_ctype' Let_def
      py_strip_def is_space_def lower_def ascii_lower_def ustr_def)

lemma set_content_new_message:
  "set_content t sub new_message =
     Inr (Message [(ustr ''Content-Type'', ustr ''text/'' @ sub), (ustr ''MIME-Version'', ustr ''1.0'')]
            (Text_payload t))"
  by (simp add: set_content_def new_message_def default_content_type get_header_Nil Let_def
      lower_ctype lower_mime' )

lemma set_content_three_headers:
  "set_content t sub (Message [(ustr ''Subject'', s), (ustr ''From'', f), (ustr ''To'', r)] No_payload) =
     Inr (Message [(ustr ''Subject'', s), (ustr ''From'', f), (ustr ''To'', r),
                   (ustr ''Content-Type'', ustr ''text/'' @ sub), (ustr ''MIME-Version'', ustr ''1.0'')]
            (Text_payload t))"
  by (simp add: set_content_def default_content_type get_header_Nil get_header_Cons Let_def
      lower_subject lower_from lower_to lower_ctype lower_ctype' lower_mime' content_header_names)

lemma maintype_text_plain:
  "get_content_maintype (Message [(ustr ''Subject'', s), (ustr ''From'', f), (ustr ''To'', r),
                   (ustr ''Content-Type'', ustr ''text/'' @ ustr ''plain''), (ustr ''MIME-Version'', ustr ''1.0'')] p)
     = ustr ''text''"
  by (simp add: get_content_maintype_def get_content_type_def get_header_Cons Let_def
      lower_subject lower_from lower_to lower_ctype lower_ctype'
      py_strip_def is_space_def lower_def ascii_lower_def ustr_def)

lemma add_alternative_text_message:
  "add_alternative h (ustr ''html'')
     (Message [(ustr ''Subject'', s), (ustr ''From'', f), (ustr ''To'', r),
               (ustr ''Content-Type'', ustr ''text/'' @ ustr ''plain''), (ustr ''MIME-Version'', ustr ''1.0'')]
        (Text_payload t)) =
   Inr (Message [(ustr ''Subject'', s), (ustr ''From'', f), (ustr ''To'', r),
                 (ustr ''MIME-Version'', ustr ''1.0''), (ustr ''Content-Type'', ustr ''multipart/alternative'')]
          (Multipart [Message [(ustr ''Content-Type'', ustr ''text/'' @ ustr ''plain'')] (Text_payload t),
                      Message [(ustr ''Content-Type'', ustr ''text/'' @ ustr ''html''),
                               (ustr ''MIME-Version'', ustr ''1.0'')] (Text_payload h)]))"
  by (simp add: add_alternative_def make_alternative_def maintype_text_plain set_content_new_message
      attach_def content_header_names)

lemma otp_message_Inr:
  assumes "otp_message w cfg recipient_email otp = Inr msg"
  shows "\<exists>s f t h. msg =
     Message [(ustr ''Subject'', s), (ustr ''From'', f), (ustr ''To'', recipient_email),
              (ustr ''MIME-Version'', ustr ''1.0''), (ustr ''Content-Type'', ustr ''multipart/alternative'')]
       (Multipart [Message [(ustr ''Content-Type'', ustr ''text/'' @ ustr ''plain'')] (Text_payload t),
                   Message [(ustr ''Content-Type'', ustr ''text/'' @ ustr ''html''),
                            (ustr ''MIME-Version'', ustr ''1.0'')] (Text_payload h)])"
proof -
  from assms obtain s f m1 m2 m3 m4 h t where
    1: "set_header (header_check w) (ustr ''Subject'') s new_message = Inr m1" and
    2: "set_header (header_check w) (ustr ''From'') f m1 = Inr m2" and
    3: "set_header (header_check w) (ustr ''To'') recipient_email m2 = Inr m3" and
    4: "set_content t (ustr ''plain'') m3 = Inr m4" and
    5: "add_alternative h (ustr ''html'') m4 = Inr msg"
    unfolding otp_message_def
    by (simp split: sum.splits)
  have m3: "m3 = Message [(ustr ''Subject'', s), (ustr ''From'', f), (ustr ''To'', recipient_email)] No_payload"
    using set_header_Inr [OF 1] set_header_Inr [OF 2] set_header_Inr [OF 3]
    by (simp add: new_message_def)
  from 4 have m4: "m4 = Message [(ustr ''Subject'', s), (ustr ''From'', f), (ustr ''To'', recipient_email),
                   (ustr ''Content-Type'', ustr ''text/'' @ ustr ''plain''), (ustr ''MIME-Version'', ustr ''1.0'')]
            (Text_payload t)"
    unfolding m3 set_content_three_headers by simp
  from 5 show ?thesis
    unfolding m4 add_alternative_text_message by blast
qed

lemma otp_message_two_bodies:
  assumes "otp_message w cfg recipient_email otp = Inr msg"
  shows "body_types msg = [ustr ''text/plain'', ustr ''text/html'']"
proof -
  from otp_message_Inr [OF assms] obtain s f t h where "msg =
     Message [(ustr ''Subject'', s), (ustr ''From'', f), (ustr ''To'', recipient_email),
              (ustr ''MIME-Version'', ustr ''1.0''), (ustr ''Content-Type'', ustr ''multipart/alternative'')]
       (Multipart [Message [(ustr ''Content-Type'', ustr ''text/'' @ ustr ''plain'')] (Text_payload t),
                   Message [(ustr ''Content-Type'', ustr ''text/'' @ ustr ''html''),
                            (ustr ''MIME-Version'', ustr ''1.0'')] (Text_payload h)])"
    by blast
  then show ?thesis
    by (simp add: body_types_def text_content_type)
qed

lemma otp_message_example:
  "isl (otp_message example_world example_config (ustr ''a@example.com'') (ustr ''123456'')) = False"
  by (simp add: otp_message_def set_header_def example_world_def new_message_def
      get_header_Nil get_header_Cons unique_header_def set_content_three_headers
      add_alternative_text_message
      lower_subject lower_from lower_to
      split: sum.splits option.splits)

section \<open>Response headers\<close>

lemma map_of_filter_other:
  "k' \<noteq> k \<Longrightarrow> map_of (filter (\<lambda>h. fst h \<noteq> k) hs) k' = map_of hs k'"
  by (induction hs) auto

lemma map_of_replace_header:
  "map_of (replace_header k v hs) k' = (if k' = k then Some v else map_of hs k')"
  by (induction hs) (auto simp: map_of_filter_other)

lemma set_response_header_Inr:
  assumes "set_response_header n v resp = Inr r"
  shows "r = resp\<lparr>resp_headers := replace_header (lower n) v (resp_headers resp)\<rparr>"
  using assms by (simp add: set_response_header_def split: if_splits)

lemma set_response_headers_Inr:
  assumes "set_response_headers hs resp = Inr r"
  shows "status_code r = status_code resp \<and> body r = body resp
     \<and> map_of (resp_headers r) k =
         (case map_of (rev (map (\<lambda>(n, v). (lower n, v)) hs)) k of
            Some v \<Rightarrow> Some v
          | None \<Rightarrow> map_of (resp_headers resp) k)"
  using assms
proof (induction hs arbitrary: resp)
  case Nil
  then show ?case by simp
next
  case (Cons h hs)
  obtain n v where h: "h = (n, v)" by (cases h)
  from Cons.prems h obtain r1 where
    1: "set_response_header n v resp = Inr r1" and 2: "set_response_headers hs r1 = Inr r"
    by (auto split: sum.splits)
  note r1 = set_response_header_Inr [OF 1]
  from Cons.IH [OF 2] show ?case
    by (auto simp: h r1 map_of_replace_header split: option.splits)
qed

lemma latin1_ustr: "latin1 (ustr s)"
  by (simp add: latin1_def ustr_def list_all_iff)

lemma set_response_headers_latin1:
  "list_all (\<lambda>h. latin1 (fst h) \<and> latin1 (snd h)) hs \<Longrightarrow> \<exists>r. set_response_headers hs resp = Inr r"
proof (induction hs arbitrary: resp)
  case Nil
  then show ?case by simp
next
  case (Cons h hs)
  obtain n v where h: "h = (n, v)" by (cases h)
  with Cons.prems have "set_response_header n v resp
      = Inr (resp\<lparr>resp_headers := replace_header (lower n) v (resp_headers resp)\<rparr>)"
    by (simp add: set_response_header_def)
  with Cons h show ?case by simp
qed

lemma cors_headers_latin1:
  "latin1 v \<Longrightarrow> \<exists>r. set_response_headers
          ((ustr ''AMP-Access-Control-Allow-Source-Origin'', v) # fixed_cors_headers) resp = Inr r"
  by (rule set_response_headers_latin1) (simp add: fixed_cors_headers_def latin1_ustr)

lemma lower_cors_names:
  "lower (ustr ''AMP-Access-Control-Allow-Source-Origin'') = ustr ''amp-access-control-allow-source-origin''"
  "lower (ustr ''Access-Control-Allow-Origin'') = ustr ''access-control-allow-origin''"
  "lower (ustr ''Access-Control-Allow-Methods'') = ustr ''access-control-allow-methods''"
  "lower (ustr ''Access-Control-Allow-Headers'') = ustr ''access-control-allow-headers''"
  "lower (ustr ''Access-Control-Expose-Headers'') = ustr ''access-control-expose-headers''"
  "lower (ustr ''Access-Control-Allow-Credentials'') = ustr ''access-control-allow-credentials''"
  "lower (ustr ''Origin'') = ustr ''origin''"
  by (simp_all add: lower_def ustr_def ascii_lower_def)

lemma cors_headers_set:
  assumes "set_response_headers
             ((ustr ''AMP-Access-Control-Allow-Source-Origin'', v) # fixed_cors_headers) resp = Inr r"
  shows "map_of (resp_headers r) (ustr ''amp-access-control-allow-source-origin'') = Some v
     \<and> map_of (resp_headers r) (ustr ''access-control-allow-origin'') = Some (ustr ''*'')
     \<and> map_of (resp_headers r) (ustr ''access-control-allow-methods'')
          = Some (ustr ''GET, POST, PUT, DELETE, OPTIONS'')
     \<and> map_of (resp_headers r) (ustr ''access-control-allow-headers'') = Some (ustr ''*'')
     \<and> map_of (resp_headers r) (ustr ''access-control-expose-headers'') = Some (ustr ''*'')
     \<and> map_of (resp_headers r) (ustr ''access-control-allow-credentials'') = Some (ustr ''true'')
     \<and> status_code r = status_code resp \<and> body r = body resp"
  using set_response_headers_Inr [OF assms]
  by (simp add: fixed_cors_headers_def lower_cors_names)

section \<open>Consumed tokens\<close>

lemma consume_consumed:
  "tok \<in> set (consumed srv) \<Longrightarrow> consume_token tok now srv = (srv, False)"
  by (simp add: consume_token_def)

lemma consumed_grows:
  "tok \<in> set (consumed srv) \<Longrightarrow> tok \<in> set (consumed (fst (consume_token tok' now srv)))"
  by (simp add: consume_token_def)

lemma consumed_after_serve:
  "tok \<in> set (consumed srv) \<Longrightarrow> tok \<in> set (consumed (serve reqs srv))"
proof (induction reqs arbitrary: srv)
  case Nil
  then show ?case by simp
next
  case (Cons rq reqs)
  obtain t n where rq: "rq = (t, n)" by (cases rq)
  from Cons.prems have "tok \<in> set (consumed (fst (consume_token t n srv)))"
    by (rule consumed_grows)
  then show ?case unfolding rq by (simp add: Cons.IH)
qed

lemma accepted_is_consumed:
  "snd (consume_token tok now srv) \<Longrightarrow> tok \<in> set (consumed (fst (consume_token tok now srv)))"
  by (simp add: consume_token_def split: if_splits)

section \<open>Missing configuration\<close>

lemma unset_incomplete:
  "EMAIL_HOST cfg = None \<or> EMAIL_USER cfg = None \<or> EMAIL_PASS cfg = None
     \<Longrightarrow> \<not> email_config_complete cfg"
  by (auto simp: email_config_complete_def truthy_def)

lemma contains_join: "x \<in> set xs \<Longrightarrow> contains (join sep xs) x"
proof (induction sep xs rule: join.induct)
  case (1 sep)
  then show ?case by simp
next
  case (2 sep y)
  then show ?case by simp
next
  case (3 sep y z zs)
  show ?case
  proof (cases "x = y")
    case True
    then show ?thesis by (simp add: contains_append_right)
  next
    case False
    with 3 have "contains (join sep (z # zs)) x" by simp
    then show ?thesis by (simp add: contains_append_left)
  qed
qed

lemma otp_error_names_missing:
  "x \<in> set (missing_vars cfg) \<Longrightarrow> contains (otp_error_msg cfg) x"
  by (simp add: otp_error_msg_def contains_append_left contains_join)

lemma send_incomplete:
  "\<not> email_config_complete cfg \<Longrightarrow>
     send_leave_action_email w cfg d = (start_run d, Inr (Ret_error_dict (config_error_msg cfg)))"
  by (simp add: send_leave_action_email_def send_leave_action_email_try_def)

lemma otp_incomplete:
  "\<not> email_config_complete cfg \<Longrightarrow>
     send_password_reset_otp w cfg recipient_email otp =
       (\<lparr>otp_smtp_log = [],
         otp_printed = [[10060] @ ustr '' Failed to send password reset OTP: '' @ otp_error_msg cfg]\<rparr>,
        Inl (Exception (otp_error_msg cfg)))"
  by (simp add: send_password_reset_otp_def send_password_reset_otp_try_def)

section \<open>The concrete inputs evaluated\<close>

lemma example_refresh_empty: "refresh_leave example_world Map.empty = (Map.empty, None)"
  by (simp add: refresh_leave_def example_world_def)

lemma example_config_complete: "email_config_complete example_config"
  by (simp add: email_config_complete_def example_config_def truthy_def ustr_def)

lemma example_try_empty:
  "send_leave_action_email_try example_world example_config (start_run Map.empty)
     = (start_run Map.empty, Inl (KeyError (ustr ''_id'')))"
  by (simp add: send_leave_action_email_try_def example_config_complete example_refresh_empty
      start_run_def generate_tokens_def Let_def)

lemma example_refresh: "refresh_leave example_world example_leave = (example_leave, None)"
  by (simp add: refresh_leave_def example_world_def example_leave_def)

lemma example_headers_ok:
  "isl (message_headers example_world example_config d) \<longleftrightarrow>
     (d (ustr ''manager_email'') = None \<or> isl (subject_line example_world d))"
  by (simp add: message_headers_def set_header_def example_world_def new_message_def
      get_header_Nil get_header_Cons unique_header_def
      lower_subject lower_from lower_to lower_xamp lower_ctype
      split: sum.splits option.splits)

lemma example_otp_sent:
  "snd (send_password_reset_otp example_world example_config (ustr ''a@example.com'') (ustr ''123456''))
     = Inr Ret_None
   \<and> length (otp_smtp_log (fst (send_password_reset_otp example_world example_config
        (ustr ''a@example.com'') (ustr ''123456'')))) = 4"
proof -
  obtain msg where m: "otp_message example_world example_config (ustr ''a@example.com'') (ustr ''123456'') = Inr msg"
    using otp_message_example by (cases "otp_message example_world example_config (ustr ''a@example.com'') (ustr ''123456'')") simp_all
  have d: "smtp_deliver example_world example_config msg [] =
      ([Connect (ustr ''smtp.example.com'') 587, Starttls,
        Login (ustr ''hr@example.com'') (ustr ''secret''), Send_message msg], None)"
    by (simp add: smtp_deliver_def example_world_def example_config_def)
  show ?thesis
    by (simp add: send_password_reset_otp_def send_password_reset_otp_try_def
        example_config_complete m d)
qed


lemma non_latin1_origin_raises:
  "startswith (path example_unicode_request) (ustr ''/leave/'')
   \<and> example_app example_unicode_request = Inr example_response
   \<and> add_amp_cors_headers id example_app example_unicode_request
       = Inl (UnicodeEncodeError (ustr ''latin-1''))"
proof -
  have p: "startswith (path example_unicode_request) (ustr ''/leave/'')"
    by (simp add: example_unicode_request_def ustr_def)
  have s: "source_origin id example_unicode_request = [9989]"
    by (simp add: source_origin_def example_unicode_request_def query_get_def unquote_def)
  show ?thesis
    using p by (simp add: add_amp_cors_headers_def example_app_def s set_response_header_def latin1_def)
qed

section \<open>Template rendering with fallback\<close>

text \<open>
  C1. With a template environment present: if rendering either template raises, or the
  rendered AMP content is empty or shorter than 100 characters, or it still contains
  \<open>{{ leave.\<close>, both the AMP and the HTML body are the inline fallback content of
  \<open>get_fallback_email_content\<close>; otherwise the rendered contents are kept. Without a
  template environment the fallback content is used directly.
\<close>

theorem render_template_then_fallback:
  "render_email_content (Some t) leave_dict backend_url =
     (if isl (amp_template t leave_dict) \<or> isl (html_template t leave_dict)
         \<or> projr (amp_template t leave_dict) = []
         \<or> length (projr (amp_template t leave_dict)) < 100
         \<or> contains (projr (amp_template t leave_dict)) (ustr ''{{ leave.'')
      then get_fallback_email_content leave_dict backend_url
      else (projr (amp_template t leave_dict), projr (html_template t leave_dict)))
   \<and> render_email_content None leave_dict backend_url
       = get_fallback_email_content leave_dict backend_url"
  by (cases "amp_template t leave_dict"; cases "html_template t leave_dict")
     (simp_all add: render_email_content_def)

theorem render_template_then_fallback_witness:
  "render_email_content (Some example_templates) example_leave (ustr ''https://api.example.com'')
     = get_fallback_email_content example_leave (ustr ''https://api.example.com'')"
  using render_template_then_fallback [of example_templates example_leave "ustr ''https://api.example.com''"]
  by (simp add: example_templates_def ustr_def)

section \<open>Best effort: nothing reaches the caller\<close>

text \<open>
  C2. \<open>send_leave_action_email\<close> never lets an exception reach its caller: whatever the
  lookup of fresh data, the token generation, the template rendering, the assembly of the
  message or the SMTP delivery raise, the function returns a value; an exception raised
  inside is caught, the handler prints its two lines, and the function returns \<open>None\<close>.
\<close>

theorem send_leave_action_email_never_raises:
  "(\<exists>v. snd (send_leave_action_email w cfg leave_dict) = Inr v)
   \<and> (\<forall>r e. send_leave_action_email_try w cfg (start_run leave_dict) = (r, Inl e) \<longrightarrow>
         send_leave_action_email w cfg leave_dict =
           (r\<lparr>printed := printed r @
                [ustr ''Failed to send email notification: '' @ exn_str e,
                 ustr ''Leave request was still processed successfully'']\<rparr>,
            Inr Ret_None))"
  by (cases "send_leave_action_email_try w cfg (start_run leave_dict)")
     (auto simp: send_leave_action_email_def split: sum.splits)

theorem send_leave_action_email_never_raises_witness:
  "send_leave_action_email example_world example_config Map.empty =
     ((start_run Map.empty)\<lparr>printed :=
         [ustr ''Failed to send email notification: '' @ [39] @ ustr ''_id'' @ [39],
          ustr ''Leave request was still processed successfully'']\<rparr>,
      Inr Ret_None)"
  using send_leave_action_email_never_raises [of example_world example_config Map.empty]
    example_try_empty
  by (simp add: start_run_def)

section \<open>The approval message is never composed\<close>

text \<open>
  C3. The claim: every approval email composed by \<open>send_leave_action_email\<close> has three
  bodies, plain text first, then HTML, then the AMP part. The code sets the header
  \<open>Content-Type: multipart/alternative\<close> by hand (line 186) before it calls
  \<open>msg.set_content\<close> (line 206), which the library refuses on a multipart message: with a
  complete configuration, every collaborator succeeding and a well-formed leave
  dictionary, the call returns \<open>None\<close> after printing the failure, and no SMTP operation
  is attempted.
\<close>

theorem approval_email_set_content_refused:
  "snd (send_leave_action_email example_world example_config example_leave) = Inr Ret_None
   \<and> smtp_log (fst (send_leave_action_email example_world example_config example_leave)) = []
   \<and> printed (fst (send_leave_action_email example_world example_config example_leave)) =
       [ustr ''Failed to send email notification: set_content not valid on multipart'',
        ustr ''Leave request was still processed successfully'']"
proof -
  have t: "send_leave_action_email_try example_world example_config (start_run example_leave) =
     (\<lparr>leave = prepared_leave example_config example_leave (ustr ''approve'' @ ustr ''-token'')
                 (ustr ''reject'' @ ustr ''-token''),
       token_calls = [(py_str (PStr (ustr ''64b7f0c2a1d3e4f5a6b7c8d9'')), py_str (PStr (ustr ''64b7f0c2a1d3e4f5a6b7c8da'')), ustr ''approve'', 24),
                      (py_str (PStr (ustr ''64b7f0c2a1d3e4f5a6b7c8d9'')), py_str (PStr (ustr ''64b7f0c2a1d3e4f5a6b7c8da'')), ustr ''reject'', 24)],
       smtp_log = [], printed = []\<rparr>,
      Inl (compose_error example_world example_config
             (prepared_leave example_config example_leave (ustr ''approve'' @ ustr ''-token'')
                 (ustr ''reject'' @ ustr ''-token''))))"
    by (rule try_after_tokens [OF example_config_complete example_refresh])
       (simp_all add: example_leave_def example_world_def)
  have e: "compose_error example_world example_config
             (prepared_leave example_config example_leave (ustr ''approve'' @ ustr ''-token'')
                 (ustr ''reject'' @ ustr ''-token''))
           = TypeError (ustr ''set_content not valid on multipart'')"
  proof -
    have "\<not> isl (message_headers example_world example_config
             (prepared_leave example_config example_leave (ustr ''approve'' @ ustr ''-token'')
                 (ustr ''reject'' @ ustr ''-token'')))"
      by (simp add: example_headers_ok prepared_leave_def add_urls_def ensure_total_days_def
          example_leave_def subject_line_def dict_get_default_def)
    then show ?thesis by (auto simp: compose_error_def split: sum.splits)
  qed
  have r: "send_leave_action_email example_world example_config example_leave =
     (\<lparr>leave = prepared_leave example_config example_leave (ustr ''approve'' @ ustr ''-token'')
                 (ustr ''reject'' @ ustr ''-token''),
       token_calls = [(py_str (PStr (ustr ''64b7f0c2a1d3e4f5a6b7c8d9'')), py_str (PStr (ustr ''64b7f0c2a1d3e4f5a6b7c8da'')), ustr ''approve'', 24),
                      (py_str (PStr (ustr ''64b7f0c2a1d3e4f5a6b7c8d9'')), py_str (PStr (ustr ''64b7f0c2a1d3e4f5a6b7c8da'')), ustr ''reject'', 24)],
       smtp_log = [],
       printed = [ustr ''Failed to send email notification: '' @ ustr ''set_content not valid on multipart'',
                  ustr ''Leave request was still processed successfully'']\<rparr>,
      Inr Ret_None)"
    by (simp add: send_leave_action_email_def t e)
  show ?thesis
    unfolding r by (simp add: ustr_def)
qed

section \<open>The two tokens\<close>

text \<open>
  C4. Whenever a call gets as far as its two tokens (the configuration is complete, the
  refresh from the database raises nothing, the dictionary then has \<open>_id\<close> and
  \<open>manager_id\<close>, and the generator returns both times), the generator has been called
  exactly twice: first for the action \<open>approve\<close>, then for \<open>reject\<close>, both with the leave id
  and the manager id of the dictionary and both with a validity of 24 hours; and the
  tokens the dictionary then holds as \<open>approval_token\<close> and \<open>rejection_token\<close> are what the
  generator returned for exactly those arguments.
\<close>

theorem exactly_two_tokens_of_24_hours:
  assumes "email_config_complete cfg"
    and "refresh_leave w leave_dict = (d, None)"
    and "d (ustr ''_id'') = Some i" and "d (ustr ''manager_id'') = Some m"
    and "generate_approval_token w (py_str i) (py_str m) (ustr ''approve'') 24 = Inr a"
    and "generate_approval_token w (py_str i) (py_str m) (ustr ''reject'') 24 = Inr rj"
  shows "token_calls (fst (send_leave_action_email w cfg leave_dict)) =
           [(py_str i, py_str m, ustr ''approve'', 24), (py_str i, py_str m, ustr ''reject'', 24)]
     \<and> leave (fst (send_leave_action_email w cfg leave_dict)) (ustr ''approval_token'') = Some (PStr a)
     \<and> leave (fst (send_leave_action_email w cfg leave_dict)) (ustr ''rejection_token'') = Some (PStr rj)"
  using try_after_tokens [OF assms]
  by (simp add: send_leave_action_email_def prepared_leave_def add_urls_def ensure_total_days_keys)

theorem exactly_two_tokens_of_24_hours_witness:
  "token_calls (fst (send_leave_action_email example_world example_config example_leave)) =
     [(ustr ''64b7f0c2a1d3e4f5a6b7c8d9'', ustr ''64b7f0c2a1d3e4f5a6b7c8da'', ustr ''approve'', 24),
      (ustr ''64b7f0c2a1d3e4f5a6b7c8d9'', ustr ''64b7f0c2a1d3e4f5a6b7c8da'', ustr ''reject'', 24)]
   \<and> leave (fst (send_leave_action_email example_world example_config example_leave))
        (ustr ''approval_token'') = Some (PStr (ustr ''approve-token''))
   \<and> leave (fst (send_leave_action_email example_world example_config example_leave))
        (ustr ''rejection_token'') = Some (PStr (ustr ''reject-token''))"
proof -
  have t: "ustr ''approve'' @ ustr ''-token'' = ustr ''approve-token''"
          "ustr ''reject'' @ ustr ''-token'' = ustr ''reject-token''"
    by (simp_all add: ustr_def)
  have "token_calls (fst (send_leave_action_email example_world example_config example_leave)) =
     [(py_str (PStr (ustr ''64b7f0c2a1d3e4f5a6b7c8d9'')), py_str (PStr (ustr ''64b7f0c2a1d3e4f5a6b7c8da'')),
       ustr ''approve'', 24),
      (py_str (PStr (ustr ''64b7f0c2a1d3e4f5a6b7c8d9'')), py_str (PStr (ustr ''64b7f0c2a1d3e4f5a6b7c8da'')),
       ustr ''reject'', 24)]
   \<and> leave (fst (send_leave_action_email example_world example_config example_leave))
        (ustr ''approval_token'') = Some (PStr (ustr ''approve'' @ ustr ''-token''))
   \<and> leave (fst (send_leave_action_email example_world example_config example_leave))
        (ustr ''rejection_token'') = Some (PStr (ustr ''reject'' @ ustr ''-token''))"
    by (rule exactly_two_tokens_of_24_hours [OF example_config_complete example_refresh])
       (simp_all add: example_leave_def example_world_def)
  then show ?thesis by (simp add: t)
qed

section \<open>A token is accepted once\<close>

text \<open>
  C5. Once a token has been consumed (presented and accepted), no later request that
  presents the same token is accepted, whatever requests the server has handled in
  between, and such a request leaves the server, and with it every leave record, as it
  was.
\<close>

theorem token_never_accepted_twice:
  assumes "snd (consume_token tok now srv)"
  shows "consume_token tok later (serve reqs (fst (consume_token tok now srv)))
           = (serve reqs (fst (consume_token tok now srv)), False)"
  by (rule consume_consumed, rule consumed_after_serve, rule accepted_is_consumed, rule assms)

theorem token_never_accepted_twice_witness:
  "snd (consume_token example_token 1 example_server)
   \<and> leave_statuses (fst (consume_token example_token 1 example_server)) (ustr ''64b7f0c2a1d3e4f5a6b7c8d9'') = Some Approved
   \<and> consume_token example_token 3
        (serve [(issue_token (ustr ''64b7f0c2a1d3e4f5a6b7c8d9'') (ustr ''64b7f0c2a1d3e4f5a6b7c8da'') Reject 24 0, 2)]
           (fst (consume_token example_token 1 example_server)))
       = (serve [(issue_token (ustr ''64b7f0c2a1d3e4f5a6b7c8d9'') (ustr ''64b7f0c2a1d3e4f5a6b7c8da'') Reject 24 0, 2)]
           (fst (consume_token example_token 1 example_server)), False)"
proof -
  have a: "snd (consume_token example_token 1 example_server)"
    by (simp add: consume_token_def example_token_def example_server_def issue_token_def)
  have b: "leave_statuses (fst (consume_token example_token 1 example_server)) (ustr ''64b7f0c2a1d3e4f5a6b7c8d9'') = Some Approved"
    by (simp add: consume_token_def example_token_def example_server_def issue_token_def status_of_def)
  show ?thesis
    using a b token_never_accepted_twice [OF a, of 3 "[(issue_token (ustr ''64b7f0c2a1d3e4f5a6b7c8d9'') (ustr ''64b7f0c2a1d3e4f5a6b7c8da'') Reject 24 0, 2)]"]
    by simp
qed

section \<open>The AMP CORS headers\<close>

text \<open>
  C6, as the claim states it, fails: the query parameter \<open>__amp_source_origin\<close> can be
  present with an empty value, and then the header is not the decoded parameter (the empty
  string) but the Origin header of the request.
\<close>

theorem empty_source_origin_parameter:
  "startswith (path example_request) (ustr ''/leave/'')
   \<and> query_get (query_params example_request) (ustr ''__amp_source_origin'') = Some []
   \<and> source_origin_as_specified id example_request = []
   \<and> map_of (resp_headers (projr (add_amp_cors_headers id example_app example_request)))
        (ustr ''amp-access-control-allow-source-origin'') = Some (ustr ''https://mail.google.com'')"
proof -
  have p: "startswith (path example_request) (ustr ''/leave/'')"
    by (simp add: example_request_def ustr_def)
  have s: "source_origin id example_request = ustr ''https://mail.google.com''"
    by (simp add: source_origin_def example_request_def query_get_def headers_get_def lower_cors_names)
  have "\<exists>r. set_response_headers
          ((ustr ''AMP-Access-Control-Allow-Source-Origin'', ustr ''https://mail.google.com'')
             # fixed_cors_headers) example_response = Inr r"
    by (rule cors_headers_latin1) (rule latin1_ustr)
  then obtain r where r: "set_response_headers
          ((ustr ''AMP-Access-Control-Allow-Source-Origin'', ustr ''https://mail.google.com'')
             # fixed_cors_headers) example_response = Inr r" by blast
  have "add_amp_cors_headers id example_app example_request = Inr r"
    using p r by (simp add: add_amp_cors_headers_def example_app_def s)
  then show ?thesis
    using cors_headers_set [OF r] p
    by (simp add: source_origin_as_specified_def example_request_def query_get_def unquote_def)
qed

text \<open>
  C6, amended. For every request whose path starts with \<open>/leave/\<close>, whose inner
  application returns a response, and whose source origin (the URL-decoded value of the
  query parameter \<open>__amp_source_origin\<close> when that is present and not empty, otherwise
  the Origin header of the request, otherwise \<open>*\<close>) can be encoded as Latin-1, the
  middleware returns a response that carries that source origin as
  \<open>AMP-Access-Control-Allow-Source-Origin\<close>, together with
  \<open>Access-Control-Allow-Origin: *\<close> and the other four \<open>Access-Control-*\<close> headers, status
  and body being those of the inner response. For a request whose path does not start
  with \<open>/leave/\<close> the inner response is returned as it is.
\<close>

theorem amp_cors_headers_on_leave_paths:
  assumes "call_next req = Inr resp"
    and "origin = (case query_get (query_params req) (ustr ''__amp_source_origin'') of
                     None \<Rightarrow> headers_get (req_headers req) (ustr ''Origin'') (ustr ''*'')
                   | Some v \<Rightarrow> if v \<noteq> [] then unquote decode_escapes v
                               else headers_get (req_headers req) (ustr ''Origin'') (ustr ''*''))"
  shows "(startswith (path req) (ustr ''/leave/'') \<and> list_all (\<lambda>c. c < 256) origin \<longrightarrow>
           (\<exists>r. add_amp_cors_headers decode_escapes call_next req = Inr r
              \<and> map_of (resp_headers r) (ustr ''amp-access-control-allow-source-origin'') = Some origin
              \<and> map_of (resp_headers r) (ustr ''access-control-allow-origin'') = Some (ustr ''*'')
              \<and> map_of (resp_headers r) (ustr ''access-control-allow-methods'')
                   = Some (ustr ''GET, POST, PUT, DELETE, OPTIONS'')
              \<and> map_of (resp_headers r) (ustr ''access-control-allow-headers'') = Some (ustr ''*'')
              \<and> map_of (resp_headers r) (ustr ''access-control-expose-headers'') = Some (ustr ''*'')
              \<and> map_of (resp_headers r) (ustr ''access-control-allow-credentials'') = Some (ustr ''true'')
              \<and> status_code r = status_code resp \<and> body r = body resp))
     \<and> (\<not> startswith (path req) (ustr ''/leave/'') \<longrightarrow>
           add_amp_cors_headers decode_escapes call_next req = Inr resp)"
proof (intro conjI impI)
  assume "\<not> startswith (path req) (ustr ''/leave/'')"
  with assms(1) show "add_amp_cors_headers decode_escapes call_next req = Inr resp"
    by (simp add: add_amp_cors_headers_def)
next
  assume h: "startswith (path req) (ustr ''/leave/'') \<and> list_all (\<lambda>c. c < 256) origin"
  have o: "source_origin decode_escapes req = origin"
    by (simp add: source_origin_def assms(2))
  from h have "latin1 origin" by (simp add: latin1_def)
  from cors_headers_latin1 [OF this, of resp] obtain r where
    r: "set_response_headers
          ((ustr ''AMP-Access-Control-Allow-Source-Origin'', origin) # fixed_cors_headers) resp = Inr r"
    by blast
  have a: "add_amp_cors_headers decode_escapes call_next req = Inr r"
    using h r assms(1) by (simp add: add_amp_cors_headers_def o)
  from cors_headers_set [OF r] a
  show "\<exists>r. add_amp_cors_headers decode_escapes call_next req = Inr r
              \<and> map_of (resp_headers r) (ustr ''amp-access-control-allow-source-origin'') = Some origin
              \<and> map_of (resp_headers r) (ustr ''access-control-allow-origin'') = Some (ustr ''*'')
              \<and> map_of (resp_headers r) (ustr ''access-control-allow-methods'')
                   = Some (ustr ''GET, POST, PUT, DELETE, OPTIONS'')
              \<and> map_of (resp_headers r) (ustr ''access-control-allow-headers'') = Some (ustr ''*'')
              \<and> map_of (resp_headers r) (ustr ''access-control-expose-headers'') = Some (ustr ''*'')
              \<and> map_of (resp_headers r) (ustr ''access-control-allow-credentials'') = Some (ustr ''true'')
              \<and> status_code r = status_code resp \<and> body r = body resp"
    by blast
qed

theorem amp_cors_headers_on_leave_paths_witness:
  "map_of (resp_headers (projr (add_amp_cors_headers id example_app example_amp_request)))
     (ustr ''amp-access-control-allow-source-origin'') = Some (ustr ''amp@gmail.dev'')"
proof -
  have c: "example_app example_amp_request = Inr example_response"
    by (simp add: example_app_def)
  have o: "ustr ''amp@gmail.dev'' =
      (case query_get (query_params example_amp_request) (ustr ''__amp_source_origin'') of
         None \<Rightarrow> headers_get (req_headers example_amp_request) (ustr ''Origin'') (ustr ''*'')
       | Some v \<Rightarrow> if v \<noteq> [] then unquote id v
                   else headers_get (req_headers example_amp_request) (ustr ''Origin'') (ustr ''*''))"
    by (simp add: example_amp_request_def query_get_def unquote_def ustr_def)
  have p: "startswith (path example_amp_request) (ustr ''/leave/'')"
    by (simp add: example_amp_request_def ustr_def)
  have l: "list_all (\<lambda>c. c < 256) (ustr ''amp@gmail.dev'')"
    using latin1_ustr [of "''amp@gmail.dev''"] by (simp add: latin1_def)
  show ?thesis
    using amp_cors_headers_on_leave_paths [where call_next = example_app
        and req = example_amp_request and resp = example_response
        and origin = "ustr ''amp@gmail.dev''" and decode_escapes = id, OF c o] p l
    by auto
qed

section \<open>Defaults of the configuration\<close>



section \<open>The two senders on a missing configuration\<close>

text \<open>
  C8. When any of \<open>EMAIL_HOST\<close>, \<open>EMAIL_USER\<close>, \<open>EMAIL_PASS\<close> is unset,
  \<open>send_leave_action_email\<close> returns the dictionary \<open>{"error": ...}\<close> and has attempted no
  SMTP operation (nor touched the leave dictionary or generated a token), whereas
  \<open>send_password_reset_otp\<close> raises an exception whose message names every missing
  variable, also without any SMTP operation.
\<close>

theorem missing_configuration_asymmetry:
  assumes "EMAIL_HOST cfg = None \<or> EMAIL_USER cfg = None \<or> EMAIL_PASS cfg = None"
  shows "send_leave_action_email w cfg leave_dict
           = (start_run leave_dict, Inr (Ret_error_dict (config_error_msg cfg)))
     \<and> smtp_log (fst (send_leave_action_email w cfg leave_dict)) = []
     \<and> snd (send_password_reset_otp w cfg recipient_email otp) = Inl (Exception (otp_error_msg cfg))
     \<and> otp_smtp_log (fst (send_password_reset_otp w cfg recipient_email otp)) = []
     \<and> (EMAIL_HOST cfg = None \<longrightarrow> contains (otp_error_msg cfg) (ustr ''EMAIL_HOST''))
     \<and> (EMAIL_USER cfg = None \<longrightarrow> contains (otp_error_msg cfg) (ustr ''EMAIL_USER''))
     \<and> (EMAIL_PASS cfg = None \<longrightarrow> contains (otp_error_msg cfg) (ustr ''EMAIL_PASS''))"
proof -
  have i: "\<not> email_config_complete cfg" using assms by (rule unset_incomplete)
  have h: "EMAIL_HOST cfg = None \<Longrightarrow> contains (otp_error_msg cfg) (ustr ''EMAIL_HOST'')"
    by (rule otp_error_names_missing) (simp add: missing_vars_def truthy_def)
  have u: "EMAIL_USER cfg = None \<Longrightarrow> contains (otp_error_msg cfg) (ustr ''EMAIL_USER'')"
    by (rule otp_error_names_missing) (simp add: missing_vars_def truthy_def)
  have p: "EMAIL_PASS cfg = None \<Longrightarrow> contains (otp_error_msg cfg) (ustr ''EMAIL_PASS'')"
    by (rule otp_error_names_missing) (simp add: missing_vars_def truthy_def)
  show ?thesis
    using h u p by (simp add: send_incomplete [OF i] otp_incomplete [OF i] start_run_def)
qed

theorem missing_configuration_asymmetry_witness:
  "send_leave_action_email example_world (example_config\<lparr>EMAIL_PASS := None\<rparr>) example_leave
     = (start_run example_leave,
        Inr (Ret_error_dict (ustr ''Email configuration incomplete - HOST: True, USER: True, PASS: False'')))
   \<and> snd (send_password_reset_otp example_world (example_config\<lparr>EMAIL_PASS := None\<rparr>)
             (ustr ''a@example.com'') (ustr ''123456''))
       = Inl (Exception (ustr ''Email configuration not available. Missing: EMAIL_PASS''))"
proof -
  have c: "config_error_msg (example_config\<lparr>EMAIL_PASS := None\<rparr>)
             = ustr ''Email configuration incomplete - HOST: True, USER: True, PASS: False''"
    by (simp add: config_error_msg_def example_config_def truthy_def bool_str_def ustr_def)
  have o: "otp_error_msg (example_config\<lparr>EMAIL_PASS := None\<rparr>)
             = ustr ''Email configuration not available. Missing: EMAIL_PASS''"
    by (simp add: otp_error_msg_def missing_vars_def example_config_def truthy_def ustr_def)
  show ?thesis
    using missing_configuration_asymmetry [of "example_config\<lparr>EMAIL_PASS := None\<rparr>"
        example_world example_leave "ustr ''a@example.com''" "ustr ''123456''"]
    by (simp add: c o)
qed

section \<open>The caller's dictionary\<close>

text \<open>
  C9, as the claim states it, fails: a dictionary without \<open>_id\<close> passes the configuration
  check, the lookup \<open>leave_dict['_id']\<close> raises, and the dictionary comes back as it was,
  without \<open>approval_token\<close>.
\<close>

theorem dict_without_id_gets_no_keys:
  "email_config_complete example_config
   \<and> leave (fst (send_leave_action_email example_world example_config Map.empty))
        (ustr ''approval_token'') = None"
  unfolding send_leave_action_email_def example_try_empty
  by (simp add: example_config_complete start_run_def)

text \<open>
  C9, amended. After a call that passes the configuration check and gets as far as its
  two tokens (the refresh from the database raises nothing, the dictionary then has \<open>_id\<close>
  and \<open>manager_id\<close>, and the generator returns both times), the caller's dictionary holds
  \<open>approval_token\<close>, \<open>rejection_token\<close>, \<open>backend_url\<close>, \<open>frontend_url\<close> and \<open>total_days\<close>:
  \<open>total_days\<close> keeps its value when the refreshed dictionary had one, is copied from
  \<open>days\<close> when only \<open>days\<close> was there, and both are \<open>N/A\<close> when neither was. Every other
  key is as in the refreshed dictionary.
\<close>

theorem caller_dict_after_tokens:
  assumes "email_config_complete cfg"
    and "refresh_leave w leave_dict = (d, None)"
    and "d (ustr ''_id'') = Some i" and "d (ustr ''manager_id'') = Some m"
    and "generate_approval_token w (py_str i) (py_str m) (ustr ''approve'') 24 = Inr a"
    and "generate_approval_token w (py_str i) (py_str m) (ustr ''reject'') 24 = Inr rj"
  shows "leave (fst (send_leave_action_email w cfg leave_dict)) k =
     (if k = ustr ''frontend_url'' then Some (PStr (snd (resolve_urls cfg)))
      else if k = ustr ''backend_url'' then Some (PStr (fst (resolve_urls cfg)))
      else if k = ustr ''approval_token'' then Some (PStr a)
      else if k = ustr ''rejection_token'' then Some (PStr rj)
      else if k = ustr ''total_days'' then
        (case d (ustr ''total_days'') of
           Some t \<Rightarrow> Some t
         | None \<Rightarrow> (case d (ustr ''days'') of Some x \<Rightarrow> Some x | None \<Rightarrow> Some (PStr (ustr ''N/A''))))
      else if k = ustr ''days'' then
        (case d (ustr ''days'') of
           Some x \<Rightarrow> Some x
         | None \<Rightarrow> (case d (ustr ''total_days'') of Some t \<Rightarrow> None | None \<Rightarrow> Some (PStr (ustr ''N/A''))))
      else d k)"
proof -
  have "leave (fst (send_leave_action_email w cfg leave_dict)) = prepared_leave cfg d a rj"
    using try_after_tokens [OF assms] by (simp add: send_leave_action_email_def)
  then show ?thesis
    by (simp add: prepared_leave_def add_urls_def ensure_total_days_keys cong: option.case_cong)
qed

theorem caller_dict_after_tokens_witness:
  "leave (fst (send_leave_action_email example_world example_config example_leave)) (ustr ''total_days'')
     = Some (PInt 3)"
proof -
  have "leave (fst (send_leave_action_email example_world example_config example_leave)) (ustr ''total_days'') =
     (if ustr ''total_days'' = ustr ''frontend_url'' then Some (PStr (snd (resolve_urls example_config)))
      else if ustr ''total_days'' = ustr ''backend_url'' then Some (PStr (fst (resolve_urls example_config)))
      else if ustr ''total_days'' = ustr ''approval_token'' then Some (PStr (ustr ''approve'' @ ustr ''-token''))
      else if ustr ''total_days'' = ustr ''rejection_token'' then Some (PStr (ustr ''reject'' @ ustr ''-token''))
      else if ustr ''total_days'' = ustr ''total_days'' then
        (case example_leave (ustr ''total_days'') of
           Some t \<Rightarrow> Some t
         | None \<Rightarrow> (case example_leave (ustr ''days'') of Some x \<Rightarrow> Some x | None \<Rightarrow> Some (PStr (ustr ''N/A''))))
      else if ustr ''total_days'' = ustr ''days'' then
        (case example_leave (ustr ''days'') of
           Some x \<Rightarrow> Some x
         | None \<Rightarrow> (case example_leave (ustr ''total_days'') of Some t \<Rightarrow> None | None \<Rightarrow> Some (PStr (ustr ''N/A''))))
      else example_leave (ustr ''total_days''))"
    by (rule caller_dict_after_tokens [OF example_config_complete example_refresh])
       (simp_all add: example_leave_def example_world_def)
  then show ?thesis by (simp add: example_leave_def)
qed

section \<open>The fallback content is one body with both links\<close>

text \<open>
  C10. For every leave dictionary and backend URL, \<open>get_fallback_email_content\<close> returns
  a pair whose two components are the same string, and that string contains the approve
  link, the backend URL followed by \<open>/api/leave/\<close>, the \<open>_id\<close>, \<open>/approve?token=\<close> and the
  \<open>approval_token\<close> of the dictionary, and the reject link, the same with
  \<open>/reject?token=\<close> and the \<open>rejection_token\<close> (a key the dictionary lacks reads as
  \<open>None\<close>, as \<open>leave_dict.get\<close> gives it).
\<close>

theorem fallback_content_same_body_with_links:
  "fst (get_fallback_email_content leave_dict backend_url)
     = snd (get_fallback_email_content leave_dict backend_url)
   \<and> contains (fst (get_fallback_email_content leave_dict backend_url))
         (backend_url @ ustr ''/api/leave/''
            @ py_str (case leave_dict (ustr ''_id'') of None \<Rightarrow> PNone | Some v \<Rightarrow> v)
            @ ustr ''/approve?token=''
            @ py_str (case leave_dict (ustr ''approval_token'') of None \<Rightarrow> PNone | Some v \<Rightarrow> v))
   \<and> contains (fst (get_fallback_email_content leave_dict backend_url))
         (backend_url @ ustr ''/api/leave/''
            @ py_str (case leave_dict (ustr ''_id'') of None \<Rightarrow> PNone | Some v \<Rightarrow> v)
            @ ustr ''/reject?token=''
            @ py_str (case leave_dict (ustr ''rejection_token'') of None \<Rightarrow> PNone | Some v \<Rightarrow> v))"
proof -
  have a: "approve_url leave_dict backend_url \<in> set (fallback_html_pieces leave_dict backend_url)"
    unfolding fallback_html_pieces_def by simp
  have r: "reject_url leave_dict backend_url \<in> set (fallback_html_pieces leave_dict backend_url)"
    unfolding fallback_html_pieces_def by simp
  have "contains (fst (get_fallback_email_content leave_dict backend_url)) (approve_url leave_dict backend_url)"
       "contains (fst (get_fallback_email_content leave_dict backend_url)) (reject_url leave_dict backend_url)"
    using a r by (simp_all add: get_fallback_email_content_def Let_def contains_concat_mem)
  then show ?thesis
    by (simp add: approve_url_def reject_url_def dict_get_def get_fallback_email_content_def Let_def)
qed

theorem fallback_content_same_body_with_links_witness:
  "contains (fst (get_fallback_email_content example_leave_with_tokens (ustr ''https://api.example.com'')))
     (ustr ''https://api.example.com/api/leave/64b7f0c2a1d3e4f5a6b7c8d9/approve?token=tokA'')
   \<and> contains (snd (get_fallback_email_content example_leave_with_tokens (ustr ''https://api.example.com'')))
     (ustr ''https://api.example.com/api/leave/64b7f0c2a1d3e4f5a6b7c8d9/reject?token=tokR'')"
proof -
  have a: "ustr ''https://api.example.com'' @ ustr ''/api/leave/''
            @ py_str (case example_leave_with_tokens (ustr ''_id'') of None \<Rightarrow> PNone | Some v \<Rightarrow> v)
            @ ustr ''/approve?token=''
            @ py_str (case example_leave_with_tokens (ustr ''approval_token'') of None \<Rightarrow> PNone | Some v \<Rightarrow> v)
         = ustr ''https://api.example.com/api/leave/64b7f0c2a1d3e4f5a6b7c8d9/approve?token=tokA''"
    by (simp add: example_leave_with_tokens_def example_leave_def) (simp add: ustr_def)
  have r: "ustr ''https://api.example.com'' @ ustr ''/api/leave/''
            @ py_str (case example_leave_with_tokens (ustr ''_id'') of None \<Rightarrow> PNone | Some v \<Rightarrow> v)
            @ ustr ''/reject?token=''
            @ py_str (case example_leave_with_tokens (ustr ''rejection_token'') of None \<Rightarrow> PNone | Some v \<Rightarrow> v)
         = ustr ''https://api.example.com/api/leave/64b7f0c2a1d3e4f5a6b7c8d9/reject?token=tokR''"
    by (simp add: example_leave_with_tokens_def example_leave_def) (simp add: ustr_def)
  have t: "fst (get_fallback_email_content example_leave_with_tokens (ustr ''https://api.example.com''))
     = snd (get_fallback_email_content example_leave_with_tokens (ustr ''https://api.example.com''))
   \<and> contains (fst (get_fallback_email_content example_leave_with_tokens (ustr ''https://api.example.com'')))
         (ustr ''https://api.example.com/api/leave/64b7f0c2a1d3e4f5a6b7c8d9/approve?token=tokA'')
   \<and> contains (fst (get_fallback_email_content example_leave_with_tokens (ustr ''https://api.example.com'')))
         (ustr ''https://api.example.com/api/leave/64b7f0c2a1d3e4f5a6b7c8d9/reject?token=tokR'')"
    using fallback_content_same_body_with_links [of example_leave_with_tokens "ustr ''https://api.example.com''"]
    unfolding a r .
  then have e: "fst (get_fallback_email_content example_leave_with_tokens (ustr ''https://api.example.com''))
     = snd (get_fallback_email_content example_leave_with_tokens (ustr ''https://api.example.com''))"
    and ca: "contains (fst (get_fallback_email_content example_leave_with_tokens (ustr ''https://api.example.com'')))
         (ustr ''https://api.example.com/api/leave/64b7f0c2a1d3e4f5a6b7c8d9/approve?token=tokA'')"
    and cr: "contains (fst (get_fallback_email_content example_leave_with_tokens (ustr ''https://api.example.com'')))
         (ustr ''https://api.example.com/api/leave/64b7f0c2a1d3e4f5a6b7c8d9/reject?token=tokR'')"
    by blast+
  from cr have "contains (snd (get_fallback_email_content example_leave_with_tokens (ustr ''https://api.example.com'')))
         (ustr ''https://api.example.com/api/leave/64b7f0c2a1d3e4f5a6b7c8d9/reject?token=tokR'')"
    unfolding e .
  with ca show ?thesis by blast
qed

end
